theory Spec2Isabelle
  imports Complex_Main
begin

section \<open>Values and keyframe data\<close>

text \<open>
  Modelling conventions. A JavaScript number is a \<^typ>\<open>real\<close>: arithmetic is exact, and
  the values NaN and Infinity do not exist. Wherever the source could produce one of them
  from the inputs of a function (a division by a zero zoom factor, arithmetic on a string
  operand) the model returns the error \<open>NotModelled\<close> instead of a number. A JavaScript
  string is a \<^typ>\<open>string\<close>, one \<^typ>\<open>char\<close> per code unit (code units below 256).
  An object used as a dictionary is a map; the order of its keys is not recorded.
  A thrown exception is the error \<open>TypeError\<close>. In the resize geometry the functions
  \<open>Math.cos\<close> and \<open>Math.sin\<close> are a parameter of the model, because their floating point
  residue at a quarter turn reaches the result.
\<close>

datatype error = TypeError | NotModelled

datatype jsval = Num real | Str string

text \<open>\<open>KeyframeProperty\<close> of \<open>types.ts\<close>, in the order of the declaration.\<close>

datatype KeyframeProperty =
    K_x | K_y | K_width | K_height | K_rotation | K_opacity
  | K_fill | K_strokeColor | K_strokeWidth | K_borderRadius
  | K_fontSize | K_letterSpacing | K_lineHeight
  | K_blur | K_brightness | K_contrast | K_hueRotate | K_saturate
  | K_color | K_scaleX | K_scaleY

datatype EasingType =
    Linear | EaseIn | EaseOut | EaseInOut
  | CubicBezier | StepStart | StepEnd | Bounce | Elastic

type_synonym snapshot = "KeyframeProperty \<rightharpoonup> jsval"

record GlobalKeyframe =
  kf_id :: string
  kf_time :: real
  kf_easing :: EasingType
  elementStates :: "string \<rightharpoonup> snapshot"

record AnimationTimeline =
  duration :: real
  loop :: bool
  autoplay :: bool
  speed :: real
  keyframes :: "GlobalKeyframe list"

text \<open>
  The fields of \<open>OverlayElement\<close> that the keyframe engine and the geometry engine read.
  The fields marked optional in \<open>types.ts\<close> are options.
\<close>

record ElementProps =
  el_id :: string
  el_x :: real
  el_y :: real
  el_width :: real
  el_height :: real
  el_locked :: bool
  el_opacity :: real
  el_rotation :: real
  el_fill :: "string option"
  el_borderRadius :: "real option"
  el_strokeColor :: "string option"
  el_strokeWidth :: "real option"
  el_fontSize :: "real option"
  el_color :: "string option"
  el_lineHeight :: "real option"
  el_letterSpacing :: "real option"
  el_blur :: "real option"
  el_brightness :: "real option"
  el_contrast :: "real option"
  el_hueRotate :: "real option"
  el_saturate :: "real option"
  el_scaleX :: "real option"
  el_scaleY :: "real option"

datatype OverlayElement =
  OverlayElement (props: ElementProps) (children: "OverlayElement list option")

text \<open>\<open>(el as any)[prop]\<close>: the element's own value of a keyframe property, if it has one.\<close>

fun elProp :: "ElementProps \<Rightarrow> KeyframeProperty \<Rightarrow> jsval option" where
  "elProp el K_x = Some (Num (el_x el))"
| "elProp el K_y = Some (Num (el_y el))"
| "elProp el K_width = Some (Num (el_width el))"
| "elProp el K_height = Some (Num (el_height el))"
| "elProp el K_rotation = Some (Num (el_rotation el))"
| "elProp el K_opacity = Some (Num (el_opacity el))"
| "elProp el K_fill = map_option Str (el_fill el)"
| "elProp el K_strokeColor = map_option Str (el_strokeColor el)"
| "elProp el K_strokeWidth = map_option Num (el_strokeWidth el)"
| "elProp el K_borderRadius = map_option Num (el_borderRadius el)"
| "elProp el K_fontSize = map_option Num (el_fontSize el)"
| "elProp el K_letterSpacing = map_option Num (el_letterSpacing el)"
| "elProp el K_lineHeight = map_option Num (el_lineHeight el)"
| "elProp el K_blur = map_option Num (el_blur el)"
| "elProp el K_brightness = map_option Num (el_brightness el)"
| "elProp el K_contrast = map_option Num (el_contrast el)"
| "elProp el K_hueRotate = map_option Num (el_hueRotate el)"
| "elProp el K_saturate = map_option Num (el_saturate el)"
| "elProp el K_color = map_option Str (el_color el)"
| "elProp el K_scaleX = map_option Num (el_scaleX el)"
| "elProp el K_scaleY = map_option Num (el_scaleY el)"

definition NUMERIC_KEYFRAME_PROPS :: "KeyframeProperty list" where
  "NUMERIC_KEYFRAME_PROPS =
     [K_x, K_y, K_width, K_height, K_rotation, K_opacity,
      K_strokeWidth, K_borderRadius, K_fontSize, K_letterSpacing, K_lineHeight,
      K_blur, K_brightness, K_contrast, K_hueRotate, K_saturate, K_scaleX, K_scaleY]"

definition COLOR_KEYFRAME_PROPS :: "KeyframeProperty list" where
  "COLOR_KEYFRAME_PROPS = [K_fill, K_strokeColor, K_color]"

text \<open>\<open>Math.round\<close>: the nearest integer, a tie going up.\<close>

definition js_round :: "real \<Rightarrow> int" where
  "js_round v = \<lfloor>v + 1 / 2\<rfloor>"

section \<open>Easing\<close>

fun easingFn :: "real \<Rightarrow> EasingType \<Rightarrow> real" where
  "easingFn t Linear = t"
| "easingFn t EaseIn = t * t"
| "easingFn t EaseOut = t * (2 - t)"
| "easingFn t EaseInOut = (if t < 0.5 then 2 * t * t else - 1 + (4 - 2 * t) * t)"
| "easingFn t Bounce =
     (if t < 1 / 2.75 then 7.5625 * t * t
      else if t < 2 / 2.75 then
        (let t = t - 1.5 / 2.75 in 7.5625 * t * t + 0.75)
      else if t < 2.5 / 2.75 then
        (let t = t - 2.25 / 2.75 in 7.5625 * t * t + 0.9375)
      else
        (let t = t - 2.625 / 2.75 in 7.5625 * t * t + 0.984375))"
| "easingFn t Elastic =
     (if t = 0 then 0 else if t = 1 then 1
      else - (2 powr (10 * (t - 1))) * sin ((t - 1.1) * 5 * pi))"
| "easingFn t CubicBezier = t"
| "easingFn t StepStart = t"
| "easingFn t StepEnd = t"

section \<open>Colour math\<close>


text \<open>
  \<open>parseInt(s, 16)\<close>, with \<open>None\<close> for NaN: leading white space is skipped, then an
  optional sign, then an optional \<open>0x\<close> or \<open>0X\<close>, and the longest run of hexadecimal
  digits that follows is the value; no digit there gives NaN.
\<close>

definition isStrWhiteSpace :: "char \<Rightarrow> bool" where
  "isStrWhiteSpace c = (of_char c \<in> {9, 10, 11, 12, 13, 32, 160 :: nat})"

definition hexDigit :: "char \<Rightarrow> nat option" where
  "hexDigit c =
     (let n = (of_char c :: nat) in
      if 48 \<le> n \<and> n \<le> 57 then Some (n - 48)
      else if 97 \<le> n \<and> n \<le> 102 then Some (n - 87)
      else if 65 \<le> n \<and> n \<le> 70 then Some (n - 55)
      else None)"

definition hexValue :: "string \<Rightarrow> nat" where
  "hexValue ds = foldl (\<lambda>a c. 16 * a + (case hexDigit c of Some d \<Rightarrow> d | None \<Rightarrow> 0)) 0 ds"

definition parseInt16 :: "string \<Rightarrow> int option" where
  "parseInt16 s =
     (let s1 = dropWhile isStrWhiteSpace s;
          neg = (take 1 s1 = ''-'');
          s2 = (if take 1 s1 = ''-'' \<or> take 1 s1 = ''+'' then drop 1 s1 else s1);
          s3 = (if take 2 s2 = ''0x'' \<or> take 2 s2 = ''0X'' then drop 2 s2 else s2);
          ds = takeWhile (\<lambda>c. hexDigit c \<noteq> None) s3
      in if ds = [] then None
         else Some (if neg then - int (hexValue ds) else int (hexValue ds)))"


text \<open>
  \<open>lerpColor\<close> of the keyframe engine. A colour channel is a \<^typ>\<open>real option\<close>, \<open>None\<close>
  being NaN (a failed \<open>parseInt\<close>, or a missing array entry used in arithmetic).
  \<open>parseChannels\<close> is the local function \<open>parse\<close>, \<open>decimalValue\<close> is \<open>Number\<close> on a
  run of decimal digits.
\<close>

definition isDigit :: "char \<Rightarrow> bool" where
  "isDigit c = (48 \<le> (of_char c :: nat) \<and> (of_char c :: nat) \<le> 57)"

text \<open>\<open>c.match(/\d+/g)\<close>: the maximal runs of decimal digits, left to right.\<close>

function digitRuns :: "string \<Rightarrow> string list" where
  "digitRuns [] = []"
| "digitRuns (c # cs) =
     (if isDigit c then takeWhile isDigit (c # cs) # digitRuns (dropWhile isDigit cs)
      else digitRuns cs)"
  by pat_completeness auto
termination
  by (relation "measure length") (auto simp: length_dropWhile_le less_Suc_eq_le)

definition decimalValue :: "string \<Rightarrow> nat" where
  "decimalValue ds = foldl (\<lambda>a c. 10 * a + (of_char c - 48)) 0 ds"

definition parseChannels :: "string \<Rightarrow> real option list" where
  "parseChannels c =
     (if take 1 c = ''#'' then
        (let hex = drop 1 c;
             full = (if length hex = 3 then concat (map (\<lambda>ch. [ch, ch]) hex) else hex)
         in [map_option real_of_int (parseInt16 (take 2 full)),
             map_option real_of_int (parseInt16 (take 2 (drop 2 full))),
             map_option real_of_int (parseInt16 (take 2 (drop 4 full)))])
      else
        (case digitRuns c of
           [] \<Rightarrow> [Some 0, Some 0, Some 0]
         | m \<Rightarrow> map (\<lambda>ds. Some (real (decimalValue ds))) (take 3 m)))"

text \<open>\<open>ca[i]\<close> used as a number: an index past the end reads \<open>undefined\<close>, which is NaN.\<close>

definition channel :: "real option list \<Rightarrow> nat \<Rightarrow> real option" where
  "channel ca i = (if i < length ca then ca ! i else None)"

definition lerpChannel :: "real option \<Rightarrow> real option \<Rightarrow> real \<Rightarrow> int option" where
  "lerpChannel x y t =
     (case (x, y) of
        (Some u, Some v) \<Rightarrow> Some (js_round (u + (v - u) * t))
      | _ \<Rightarrow> None)"

text \<open>\<open>n.toString(16)\<close> for an integer, and \<open>padStart(2, '0')\<close>.\<close>

definition hexChar :: "nat \<Rightarrow> char" where
  "hexChar d = ''0123456789abcdef'' ! (d mod 16)"

fun hexNat :: "nat \<Rightarrow> string" where
  "hexNat n = (if n < 16 then [hexChar n] else hexNat (n div 16) @ [hexChar (n mod 16)])"

declare hexNat.simps [simp del]

definition toString16 :: "int option \<Rightarrow> string" where
  "toString16 v =
     (case v of
        None \<Rightarrow> ''NaN''
      | Some n \<Rightarrow> (if n < 0 then CHR ''-'' # hexNat (nat (- n)) else hexNat (nat n)))"

definition padStart2 :: "string \<Rightarrow> string" where
  "padStart2 s = replicate (2 - length s) (CHR ''0'') @ s"

definition lerpColor :: "string \<Rightarrow> string \<Rightarrow> real \<Rightarrow> string" where
  "lerpColor a b t =
     (let ca = parseChannels a; cb = parseChannels b;
          r = lerpChannel (channel ca 0) (channel cb 0) t;
          g = lerpChannel (channel ca 1) (channel cb 1) t;
          bl = lerpChannel (channel ca 2) (channel cb 2) t
      in CHR ''#'' # padStart2 (toString16 r) @ padStart2 (toString16 g) @ padStart2 (toString16 bl))"

section \<open>Keyframe interpolation engine\<close>

text \<open>\<open>kf.elementStates[elId] ?? {}\<close>.\<close>

definition getState :: "string \<Rightarrow> GlobalKeyframe \<Rightarrow> snapshot" where
  "getState elId kf = (case elementStates kf elId of None \<Rightarrow> Map.empty | Some st \<Rightarrow> st)"

text \<open>The loop that looks for the first pair of neighbours around the query time.\<close>

fun findPair :: "GlobalKeyframe list \<Rightarrow> real \<Rightarrow> (GlobalKeyframe \<times> GlobalKeyframe) option" where
  "findPair (a # b # rest) time =
     (if time \<ge> kf_time a \<and> time \<le> kf_time b then Some (a, b)
      else findPair (b # rest) time)"
| "findPair _ time = None"

text \<open>
  \<open>prev\<close> and \<open>next\<close> start as \<open>sorted[0]\<close> and \<open>sorted[1]\<close> and keep these values when the
  loop finds no pair. With fewer than two keyframes \<open>next\<close> is \<open>undefined\<close> and reading
  its state throws.
\<close>

definition bracket :: "GlobalKeyframe list \<Rightarrow> real \<Rightarrow> error + GlobalKeyframe \<times> GlobalKeyframe" where
  "bracket sortedKfs time =
     (case findPair sortedKfs time of
        Some pn \<Rightarrow> Inr pn
      | None \<Rightarrow> (case sortedKfs of a # b # rest \<Rightarrow> Inr (a, b) | _ \<Rightarrow> Inl TypeError))"

text \<open>\<open>u ?? v\<close> on an optional left operand.\<close>

definition nullish :: "'a option \<Rightarrow> 'a \<Rightarrow> 'a" where
  "nullish u v = (case u of Some w \<Rightarrow> w | None \<Rightarrow> v)"

text \<open>
  The body of the loop over \<open>allProps\<close> at one property: \<open>None\<close> when the loop writes
  nothing at that key (the key is in neither snapshot, or in neither list of properties).
  The casts \<open>pv as number\<close> and \<open>pv as string\<close> check nothing: a string that reaches the
  arithmetic is coerced (\<open>NotModelled\<close>), a number that reaches \<open>lerpColor\<close> has no
  \<open>startsWith\<close> (\<open>TypeError\<close>).
\<close>

definition interpolateProp ::
  "ElementProps \<Rightarrow> snapshot \<Rightarrow> snapshot \<Rightarrow> real \<Rightarrow> KeyframeProperty \<Rightarrow> (error + jsval) option" where
  "interpolateProp el prevState nextState t prop =
     (let pv = prevState prop; nv = nextState prop in
      if pv = None \<and> nv = None then None
      else if prop \<in> set NUMERIC_KEYFRAME_PROPS then
        (let a = nullish pv (nullish (elProp el prop) (Num 0));
             b = nullish nv (nullish (elProp el prop) (Num 0))
         in case (a, b) of
              (Num u, Num v) \<Rightarrow> Some (Inr (Num (u + (v - u) * t)))
            | _ \<Rightarrow> Some (Inl NotModelled))
      else if prop \<in> set COLOR_KEYFRAME_PROPS then
        (let a = nullish pv (nullish (elProp el prop) (Str ''#000000''));
             b = nullish nv (nullish (elProp el prop) (Str ''#000000''))
         in case (a, b) of
              (Str u, Str v) \<Rightarrow> Some (Inr (Str (lerpColor u v t)))
            | _ \<Rightarrow> Some (Inl TypeError))
      else None)"

text \<open>
  The whole loop. Each key is handled on its own and written at its own key only, so the
  result is given key by key. An exception at any colour key ends the call; otherwise a
  coercion at any numeric key leaves a value outside the model.
\<close>

definition interpolateProps ::
  "ElementProps \<Rightarrow> snapshot \<Rightarrow> snapshot \<Rightarrow> real \<Rightarrow> error + snapshot" where
  "interpolateProps el prevState nextState t =
     (if list_ex (\<lambda>p. interpolateProp el prevState nextState t p = Some (Inl TypeError))
           COLOR_KEYFRAME_PROPS then Inl TypeError
      else if list_ex (\<lambda>p. interpolateProp el prevState nextState t p = Some (Inl NotModelled))
           NUMERIC_KEYFRAME_PROPS then Inl NotModelled
      else Inr (\<lambda>p. case interpolateProp el prevState nextState t p of
                       Some (Inr v) \<Rightarrow> Some v | _ \<Rightarrow> None))"

text \<open>
  \<open>sortedKfs = [...keyframes].sort((a,b) => a.time - b.time)\<close> is a stable ascending sort by time,
  as \<^const>\<open>sort_key\<close> is.
\<close>

definition interpolateElementFromGlobal ::
  "GlobalKeyframe list \<Rightarrow> string \<Rightarrow> ElementProps \<Rightarrow> real \<Rightarrow> error + snapshot" where
  "interpolateElementFromGlobal kfs elId el time =
     (if kfs = [] then Inr Map.empty
      else
        (let sortedKfs = sort_key kf_time kfs in
         if time \<le> kf_time (hd sortedKfs) then Inr (getState elId (hd sortedKfs))
         else if time \<ge> kf_time (last sortedKfs) then Inr (getState elId (last sortedKfs))
         else
           (case bracket sortedKfs time of
              Inl e \<Rightarrow> Inl e
            | Inr (prev, next) \<Rightarrow>
                (let prevState = getState elId prev;
                     nextState = getState elId next;
                     span = kf_time next - kf_time prev;
                     rawT = (if span > 0 then (time - kf_time prev) / span else 1);
                     t = easingFn rawT (kf_easing prev)
                 in interpolateProps el prevState nextState t))))"

section \<open>Scene snapshots and keyframe insertion\<close>

text \<open>JavaScript truthiness of a number or a string.\<close>

definition truthy :: "jsval \<Rightarrow> bool" where
  "truthy v = (case v of Num n \<Rightarrow> n \<noteq> 0 | Str w \<Rightarrow> w \<noteq> [])"

text \<open>
  \<open>stateEl\<close>, read at a keyframe property: \<open>{ ...el, ...overrides }\<close>, which is \<open>el\<close>
  itself when there is no override.
\<close>

definition stateElProp :: "ElementProps \<Rightarrow> snapshot \<Rightarrow> KeyframeProperty \<Rightarrow> jsval option" where
  "stateElProp el overrides p = (case overrides p of Some v \<Rightarrow> Some v | None \<Rightarrow> elProp el p)"

definition whenTruthy :: "jsval option \<Rightarrow> jsval option" where
  "whenTruthy u = (case u of Some v \<Rightarrow> (if truthy v then Some v else None) | None \<Rightarrow> None)"

text \<open>The object literal stored at \<open>states[el.id]\<close>.\<close>

fun elementState :: "(KeyframeProperty \<Rightarrow> jsval option) \<Rightarrow> snapshot" where
  "elementState stateEl K_x = stateEl K_x"
| "elementState stateEl K_y = stateEl K_y"
| "elementState stateEl K_width = stateEl K_width"
| "elementState stateEl K_height = stateEl K_height"
| "elementState stateEl K_rotation = stateEl K_rotation"
| "elementState stateEl K_opacity = stateEl K_opacity"
| "elementState stateEl K_scaleX = Some (nullish (stateEl K_scaleX) (Num 1))"
| "elementState stateEl K_scaleY = Some (nullish (stateEl K_scaleY) (Num 1))"
| "elementState stateEl K_fill = whenTruthy (stateEl K_fill)"
| "elementState stateEl K_strokeColor = whenTruthy (stateEl K_strokeColor)"
| "elementState stateEl K_color = whenTruthy (stateEl K_color)"
| "elementState stateEl K_borderRadius = stateEl K_borderRadius"
| "elementState stateEl K_blur = whenTruthy (stateEl K_blur)"
| "elementState stateEl K_brightness = whenTruthy (stateEl K_brightness)"
| "elementState stateEl K_fontSize = whenTruthy (stateEl K_fontSize)"
| "elementState stateEl _ = None"

text \<open>
  The overrides of one element: interpolated when a time and a non-empty keyframe list
  are given, none otherwise.
\<close>

definition overridesOf ::
  "real option \<Rightarrow> GlobalKeyframe list option \<Rightarrow> ElementProps \<Rightarrow> error + snapshot" where
  "overridesOf time kfs el =
     (case (time, kfs) of
        (Some tm, Some ks) \<Rightarrow>
          (if length ks > 0 then interpolateElementFromGlobal ks (el_id el) el tm
           else Inr Map.empty)
      | _ \<Rightarrow> Inr Map.empty)"

text \<open>
  \<open>flatten\<close> walks the tree in document order and writes into \<open>states\<close>; the model
  passes \<open>states\<close> along. An exception of the interpolation ends the walk.
\<close>

fun flattenEl ::
  "real option \<Rightarrow> GlobalKeyframe list option \<Rightarrow> OverlayElement \<Rightarrow>
   (string \<rightharpoonup> snapshot) \<Rightarrow> error + (string \<rightharpoonup> snapshot)"
and flatten ::
  "real option \<Rightarrow> GlobalKeyframe list option \<Rightarrow> OverlayElement list \<Rightarrow>
   (string \<rightharpoonup> snapshot) \<Rightarrow> error + (string \<rightharpoonup> snapshot)"
where
  "flattenEl time kfs (OverlayElement el chs) states =
     (case overridesOf time kfs el of
        Inl e \<Rightarrow> Inl e
      | Inr overrides \<Rightarrow>
          (let states' = states(el_id el \<mapsto> elementState (stateElProp el overrides)) in
           case chs of
             None \<Rightarrow> Inr states'
           | Some cs \<Rightarrow> flatten time kfs cs states'))"
| "flatten time kfs [] states = Inr states"
| "flatten time kfs (e # es) states =
     (case flattenEl time kfs e states of
        Inl err \<Rightarrow> Inl err
      | Inr states' \<Rightarrow> flatten time kfs es states')"

definition snapshotAllElements ::
  "OverlayElement list \<Rightarrow> real option \<Rightarrow> GlobalKeyframe list option \<Rightarrow>
   error + (string \<rightharpoonup> snapshot)" where
  "snapshotAllElements elements time kfs = flatten time kfs elements Map.empty"

text \<open>
  \<open>addGlobalKeyframe\<close>: \<open>newId\<close> is the result of \<open>uuidv4()\<close>, \<open>timeline\<close> and \<open>elements\<close>
  are the active widget's. The result is the timeline that \<open>setTimelineProp\<close> stores.
\<close>

definition addGlobalKeyframe ::
  "string \<Rightarrow> AnimationTimeline \<Rightarrow> OverlayElement list \<Rightarrow> real \<Rightarrow> error + AnimationTimeline" where
  "addGlobalKeyframe newId timeline elements time =
     (case snapshotAllElements elements (Some time) (Some (keyframes timeline)) of
        Inl e \<Rightarrow> Inl e
      | Inr states \<Rightarrow>
          (let kf = \<lparr>kf_id = newId,
                     kf_time = real_of_int (js_round (time * 100)) / 100,
                     kf_easing = Linear,
                     elementStates = states\<rparr>;
               existing = keyframes timeline;
               filtered = filter (\<lambda>k. \<bar>kf_time k - time\<bar> > 0.01) existing
           in Inr (timeline\<lparr>keyframes := filtered @ [kf]\<rparr>)))"

section \<open>Transform and resize geometry\<close>

record Pointer =
  clientX :: real
  clientY :: real

record DragUpdate =
  drag_x :: real
  drag_y :: real

record ResizeUpdate =
  rs_width :: int
  rs_height :: int
  rs_x :: int
  rs_y :: int

text \<open>
  \<open>handleDragDown\<close> with its \<open>onMove\<close>: \<open>e\<close> is the pointer-down event, \<open>ev\<close> a later
  pointer-move event, the result the argument of \<open>onUpdate\<close>. A locked element, or a
  drawing in progress, starts no gesture (\<open>Inr None\<close>). Dividing by a zero \<open>scale\<close>
  gives Infinity or NaN.
\<close>

definition handleDragDown ::
  "ElementProps \<Rightarrow> bool \<Rightarrow> real \<Rightarrow> real \<Rightarrow> real \<Rightarrow> Pointer \<Rightarrow> Pointer \<Rightarrow> error + DragUpdate option" where
  "handleDragDown el isDrawing scale containerW containerH e ev =
     (if el_locked el \<or> isDrawing then Inr None
      else if scale = 0 then Inl NotModelled
      else
        (let startX = clientX e; startY = clientY e;
             startElX = el_x el; startElY = el_y el;
             dx = (clientX ev - startX) / scale;
             dy = (clientY ev - startY) / scale;
             nx = startElX + dx;
             ny = startElY + dy;
             cx = nx + el_width el / 2;
             cy = ny + el_height el / 2;
             nx = (if cx < 0 then - el_width el / 2 else nx);
             nx = (if cx > containerW then containerW - el_width el / 2 else nx);
             ny = (if cy < 0 then - el_height el / 2 else ny);
             ny = (if cy > containerH then containerH - el_height el / 2 else ny)
         in Inr (Some \<lparr>drag_x = nx, drag_y = ny\<rparr>)))"

text \<open>\<open>dir.includes('e')\<close> for a one-character argument.\<close>

definition includes_char :: "string \<Rightarrow> char \<Rightarrow> bool" where
  "includes_char dir c = (c \<in> set dir)"

text \<open>
  \<open>Math.cos\<close> and \<open>Math.sin\<close> are functions of the platform. Their values are floating
  point approximations: \<open>Math.cos(Math.PI / 2)\<close> is about \<open>6.1e-17\<close>, not 0, and this
  residue can decide which way \<open>Math.round\<close> goes. The model therefore takes the two
  functions as a parameter and assumes of them only what a theorem states. The argument
  \<open>rot * pi / 180\<close> stands for the number that the source computes as
  \<open>rot * Math.PI / 180\<close>.
\<close>

record MathLib =
  Math_cos :: "real \<Rightarrow> real"
  Math_sin :: "real \<Rightarrow> real"

text \<open>
  One such pair, for evaluating examples: at a quarter turn the values that the V8
  engine computes (\<open>Math.cos\<close> gives \<open>6.123233995736766e-17\<close> there, \<open>Math.sin\<close> gives
  1 and -1), the exact functions elsewhere; at 0 these are the values ECMAScript
  prescribes.
\<close>

definition doubleMath :: MathLib where
  "doubleMath =
     \<lparr>Math_cos = (\<lambda>r. if r = pi / 2 \<or> r = - (pi / 2) then 6123233995736766 / 10 ^ 32 else cos r),
      Math_sin = sin\<rparr>"

text \<open>
  \<open>handleResizeDown\<close> with its \<open>onMove\<close>, in two parts. \<open>resizeBox\<close> is \<open>onMove\<close> up to
  the line that computes \<open>nx\<close> and \<open>ny\<close>: the new size and the position that keeps the
  opposite edge in place, as \<open>(newW, newH, nx, ny)\<close>. \<open>el.rotation || 0\<close> is the
  rotation itself.
\<close>

definition resizeBox ::
  "MathLib \<Rightarrow> ElementProps \<Rightarrow> real \<Rightarrow> Pointer \<Rightarrow> string \<Rightarrow> Pointer \<Rightarrow>
   real \<times> real \<times> real \<times> real" where
  "resizeBox M el scale e dir ev =
     (let startX = clientX e; startY = clientY e;
          startW = max 0 (el_width el);
          startH = max 0 (el_height el);
          startElX = el_x el; startElY = el_y el;
          rot = el_rotation el;
          rad = rot * pi / 180;
          initialCx = startElX + startW / 2;
          initialCy = startElY + startH / 2;
          dx = (clientX ev - startX) / scale;
          dy = (clientY ev - startY) / scale;
          dx_local = dx * Math_cos M (- rad) - dy * Math_sin M (- rad);
          dy_local = dx * Math_sin M (- rad) + dy * Math_cos M (- rad);
          dw = 0; dh = 0;
          dw = (if includes_char dir (CHR ''e'') then dx_local else dw);
          dw = (if includes_char dir (CHR ''w'') then - dx_local else dw);
          dh = (if includes_char dir (CHR ''s'') then dy_local else dh);
          dh = (if includes_char dir (CHR ''n'') then - dy_local else dh);
          newW = max 4 (startW + dw);
          newH = max 4 (startH + dh);
          actual_dw = newW - startW;
          actual_dh = newH - startH;
          dcx_local = 0; dcy_local = 0;
          dcx_local = (if includes_char dir (CHR ''e'') then actual_dw / 2 else dcx_local);
          dcx_local = (if includes_char dir (CHR ''w'') then - actual_dw / 2 else dcx_local);
          dcy_local = (if includes_char dir (CHR ''s'') then actual_dh / 2 else dcy_local);
          dcy_local = (if includes_char dir (CHR ''n'') then - actual_dh / 2 else dcy_local);
          dcx = dcx_local * Math_cos M rad - dcy_local * Math_sin M rad;
          dcy = dcx_local * Math_sin M rad + dcy_local * Math_cos M rad;
          nx = initialCx + dcx - newW / 2;
          ny = initialCy + dcy - newH / 2
      in (newW, newH, nx, ny))"

text \<open>
  The rest of \<open>onMove\<close>: the centre is kept inside the container, and the geometry is
  rounded for \<open>onUpdate\<close>. The guards are those of \<open>handleDragDown\<close>.
\<close>

definition handleResizeDown ::
  "MathLib \<Rightarrow> ElementProps \<Rightarrow> bool \<Rightarrow> real \<Rightarrow> real \<Rightarrow> real \<Rightarrow> Pointer \<Rightarrow> string \<Rightarrow> Pointer \<Rightarrow>
   error + ResizeUpdate option" where
  "handleResizeDown M el isDrawing scale containerW containerH e dir ev =
     (if el_locked el \<or> isDrawing then Inr None
      else if scale = 0 then Inl NotModelled
      else
        (case resizeBox M el scale e dir ev of
           (newW, newH, nx, ny) \<Rightarrow>
             (let cx = nx + newW / 2;
                  cy = ny + newH / 2;
                  nx = (if cx < 0 then - newW / 2 else nx);
                  nx = (if cx > containerW then containerW - newW / 2 else nx);
                  ny = (if cy < 0 then - newH / 2 else ny);
                  ny = (if cy > containerH then containerH - newH / 2 else ny)
              in Inr (Some \<lparr>rs_width = js_round newW, rs_height = js_round newH,
                            rs_x = js_round nx, rs_y = js_round ny\<rparr>))))"

section \<open>Default elements\<close>

text \<open>\<open>newGroup\<close>, with \<open>uuid\<close> the result of \<open>uuidv4()\<close>: a group sets no optional property.\<close>

definition newGroup :: "string \<Rightarrow> OverlayElement" where
  "newGroup uuid =
     OverlayElement
       \<lparr>el_id = uuid, el_x = 20, el_y = 20, el_width = 300, el_height = 200,
        el_locked = False, el_opacity = 1, el_rotation = 0,
        el_fill = None, el_borderRadius = None, el_strokeColor = None, el_strokeWidth = None,
        el_fontSize = None, el_color = None, el_lineHeight = None, el_letterSpacing = None,
        el_blur = None, el_brightness = None, el_contrast = None, el_hueRotate = None,
        el_saturate = None, el_scaleX = None, el_scaleY = None\<rparr>
       (Some [])"

section \<open>Inputs of the expected shape\<close>

text \<open>
  A snapshot as every writer of the repository produces it: a number at a numeric key,
  a string at a colour key. These are the types that the casts of
  \<open>interpolateElementFromGlobal\<close> take for granted.
\<close>

definition wellTyped :: "snapshot \<Rightarrow> bool" where
  "wellTyped st =
     (list_all (\<lambda>p. case st p of Some (Str w) \<Rightarrow> False | _ \<Rightarrow> True) NUMERIC_KEYFRAME_PROPS
      \<and> list_all (\<lambda>p. case st p of Some (Num n) \<Rightarrow> False | _ \<Rightarrow> True) COLOR_KEYFRAME_PROPS)"

text \<open>The elements of a tree, in the order in which \<open>flatten\<close> visits them.\<close>

fun elementsOf :: "OverlayElement \<Rightarrow> ElementProps list"
and elementsOfList :: "OverlayElement list \<Rightarrow> ElementProps list"
where
  "elementsOf (OverlayElement el chs) =
     el # (case chs of None \<Rightarrow> [] | Some cs \<Rightarrow> elementsOfList cs)"
| "elementsOfList [] = []"
| "elementsOfList (e # es) = elementsOf e @ elementsOfList es"

section \<open>The easing curves\<close>

text \<open>
  C5. For every \<open>t\<close> in \<open>[0, 1]\<close> the easing function returns: \<open>t\<close> for linear,
  \<open>t\<^sup>2\<close> for ease-in, \<open>t (2 - t)\<close> for ease-out, \<open>2 t\<^sup>2\<close> below one half and
  \<open>-1 + (4 - 2 t) t\<close> from one half on for ease-in-out, the four quadratic segments with
  breakpoints \<open>1/2.75\<close>, \<open>2/2.75\<close> and \<open>2.5/2.75\<close> for bounce, and for elastic 0 at 0,
  1 at 1 and \<open>- 2 powr (10 (t - 1)) * sin ((t - 1.1) 5 pi)\<close> in between. Every other kind
  (cubic-bezier, step-start, step-end) returns \<open>t\<close>.
\<close>

theorem easingFn_formulas:
  assumes "0 \<le> t" and "t \<le> 1"
  shows "easingFn t Linear = t
       \<and> easingFn t EaseIn = t\<^sup>2
       \<and> easingFn t EaseOut = t * (2 - t)
       \<and> easingFn t EaseInOut = (if t < 1 / 2 then 2 * t\<^sup>2 else - 1 + (4 - 2 * t) * t)
       \<and> easingFn t Bounce =
           (if t < 1 / 2.75 then 7.5625 * t\<^sup>2
            else if t < 2 / 2.75 then 7.5625 * (t - 1.5 / 2.75)\<^sup>2 + 0.75
            else if t < 2.5 / 2.75 then 7.5625 * (t - 2.25 / 2.75)\<^sup>2 + 0.9375
            else 7.5625 * (t - 2.625 / 2.75)\<^sup>2 + 0.984375)
       \<and> easingFn t Elastic =
           (if t = 0 then 0 else if t = 1 then 1
            else - (2 powr (10 * (t - 1)) * sin ((t - 1.1) * 5 * pi)))
       \<and> (k \<notin> {Linear, EaseIn, EaseOut, EaseInOut, Bounce, Elastic} \<longrightarrow> easingFn t k = t)"
  by (cases k) (simp_all add: power2_eq_square Let_def)

theorem easingFn_formulas_witness:
  "easingFn (1 / 2) Linear = 1 / 2
   \<and> easingFn (1 / 2) EaseIn = 1 / 4
   \<and> easingFn (1 / 2) EaseOut = 3 / 4
   \<and> easingFn (1 / 2) EaseInOut = 1 / 2
   \<and> easingFn (1 / 2) Bounce = 49 / 64
   \<and> easingFn (1 / 2) StepEnd = 1 / 2"
  using easingFn_formulas [of "1 / 2" StepEnd] by (simp add: power2_eq_square)


section \<open>Clamping at the ends of the timeline\<close>

lemma sort_key_time_nonempty: "kfs \<noteq> [] \<Longrightarrow> sort_key kf_time kfs \<noteq> []"
  by (metis length_0_conv length_sort)

text \<open>
  C1, as the code has it. For a non-empty keyframe list, read in ascending order of time:
  a query time at or before the first keyframe's time returns the first keyframe's
  snapshot of the element unchanged; a query time after the first keyframe's time and at
  or after the last keyframe's time returns the last keyframe's snapshot unchanged. The
  first test is made first, so when the first and the last keyframe have the same time
  and the query is at that time, the first keyframe's snapshot is returned. A single
  keyframe at 3 holding an opacity of 0.5 gives that snapshot at the times 0 and 10.
\<close>

theorem interpolate_clamped:
  assumes "kfs \<noteq> []"
  shows "(time \<le> kf_time (hd (sort_key kf_time kfs)) \<longrightarrow>
            interpolateElementFromGlobal kfs elId el time
              = Inr (getState elId (hd (sort_key kf_time kfs))))
       \<and> (kf_time (hd (sort_key kf_time kfs)) < time
            \<and> kf_time (last (sort_key kf_time kfs)) \<le> time \<longrightarrow>
            interpolateElementFromGlobal kfs elId el time
              = Inr (getState elId (last (sort_key kf_time kfs))))"
  using assms by (simp add: interpolateElementFromGlobal_def Let_def)

theorem interpolate_clamped_witness:
  "interpolateElementFromGlobal
      [\<lparr>kf_id = ''k'', kf_time = 3, kf_easing = Linear,
        elementStates = [''g'' \<mapsto> [K_opacity \<mapsto> Num 0.5]]\<rparr>]
      ''g'' (props (newGroup ''g'')) 0 = Inr [K_opacity \<mapsto> Num 0.5]
   \<and> interpolateElementFromGlobal
      [\<lparr>kf_id = ''k'', kf_time = 3, kf_easing = Linear,
        elementStates = [''g'' \<mapsto> [K_opacity \<mapsto> Num 0.5]]\<rparr>]
      ''g'' (props (newGroup ''g'')) 10 = Inr [K_opacity \<mapsto> Num 0.5]"
  using
    interpolate_clamped [of "[\<lparr>kf_id = ''k'', kf_time = 3, kf_easing = Linear,
        elementStates = [''g'' \<mapsto> [K_opacity \<mapsto> Num 0.5]]\<rparr>]" 0 "''g''" "props (newGroup ''g'')"]
    interpolate_clamped [of "[\<lparr>kf_id = ''k'', kf_time = 3, kf_easing = Linear,
        elementStates = [''g'' \<mapsto> [K_opacity \<mapsto> Num 0.5]]\<rparr>]" 10 "''g''" "props (newGroup ''g'')"]
  by (simp add: getState_def)

text \<open>
  The claim as it is written fails where both of its cases apply: two keyframes at the
  time 1 with different snapshots, queried at 1. The query time is at or after the last
  keyframe's time, and the result is not the last keyframe's snapshot.
\<close>

theorem interpolate_clamped_last_counterexample:
  "kf_time (last (sort_key kf_time
      [\<lparr>kf_id = ''a'', kf_time = 1, kf_easing = Linear,
        elementStates = [''g'' \<mapsto> [K_x \<mapsto> Num 0]]\<rparr>,
       \<lparr>kf_id = ''b'', kf_time = 1, kf_easing = Linear,
        elementStates = [''g'' \<mapsto> [K_x \<mapsto> Num 100]]\<rparr>])) \<le> 1
   \<and> interpolateElementFromGlobal
      [\<lparr>kf_id = ''a'', kf_time = 1, kf_easing = Linear,
        elementStates = [''g'' \<mapsto> [K_x \<mapsto> Num 0]]\<rparr>,
       \<lparr>kf_id = ''b'', kf_time = 1, kf_easing = Linear,
        elementStates = [''g'' \<mapsto> [K_x \<mapsto> Num 100]]\<rparr>]
      ''g'' (props (newGroup ''g'')) 1
     \<noteq> Inr (getState ''g'' (last (sort_key kf_time
      [\<lparr>kf_id = ''a'', kf_time = 1, kf_easing = Linear,
        elementStates = [''g'' \<mapsto> [K_x \<mapsto> Num 0]]\<rparr>,
       \<lparr>kf_id = ''b'', kf_time = 1, kf_easing = Linear,
        elementStates = [''g'' \<mapsto> [K_x \<mapsto> Num 100]]\<rparr>])))
   \<and> interpolateElementFromGlobal
      [\<lparr>kf_id = ''a'', kf_time = 1, kf_easing = Linear,
        elementStates = [''g'' \<mapsto> [K_x \<mapsto> Num 0]]\<rparr>,
       \<lparr>kf_id = ''b'', kf_time = 1, kf_easing = Linear,
        elementStates = [''g'' \<mapsto> [K_x \<mapsto> Num 100]]\<rparr>]
      ''g'' (props (newGroup ''g'')) 1 = Inr [K_x \<mapsto> Num 0]"
proof -
  have differ: "[K_x \<mapsto> Num 0] \<noteq> [K_x \<mapsto> Num (100::real)]"
  proof
    assume "[K_x \<mapsto> Num 0] = [K_x \<mapsto> Num (100::real)]"
    then have "[K_x \<mapsto> Num 0] K_x = [K_x \<mapsto> Num (100::real)] K_x"
      by (rule arg_cong)
    then show False by simp
  qed
  show ?thesis
    using differ by (simp add: interpolateElementFromGlobal_def getState_def)
qed

section \<open>Interpolation between two keyframes\<close>

text \<open>
  C2. With a keyframe at 0 holding \<open>x = 0\<close> and a keyframe at 2 holding \<open>x = 100\<close>, the
  query at 1 yields \<open>x = 50\<close> when the keyframe at 0 has the easing linear, and
  \<open>x = 25\<close> when it has the easing ease-in. The element, the identifiers and the easing
  of the keyframe at 2 play no part.
\<close>

theorem interpolate_scenarios_A_B:
  "interpolateElementFromGlobal
      [\<lparr>kf_id = i1, kf_time = 0, kf_easing = Linear,
        elementStates = [elId \<mapsto> [K_x \<mapsto> Num 0]]\<rparr>,
       \<lparr>kf_id = i2, kf_time = 2, kf_easing = e2,
        elementStates = [elId \<mapsto> [K_x \<mapsto> Num 100]]\<rparr>]
      elId el 1 = Inr [K_x \<mapsto> Num 50]
   \<and> interpolateElementFromGlobal
      [\<lparr>kf_id = i1, kf_time = 0, kf_easing = EaseIn,
        elementStates = [elId \<mapsto> [K_x \<mapsto> Num 0]]\<rparr>,
       \<lparr>kf_id = i2, kf_time = 2, kf_easing = e2,
        elementStates = [elId \<mapsto> [K_x \<mapsto> Num 100]]\<rparr>]
      elId el 1 = Inr [K_x \<mapsto> Num 25]"
  by (simp add: interpolateElementFromGlobal_def bracket_def getState_def interpolateProps_def
        interpolateProp_def NUMERIC_KEYFRAME_PROPS_def COLOR_KEYFRAME_PROPS_def nullish_def
        Let_def fun_eq_iff)

section \<open>Hexadecimal colours\<close>
























section \<open>Move and resize gestures\<close>

lemma js_round_bounds: "v - 1 / 2 < real_of_int (js_round v)" "real_of_int (js_round v) \<le> v + 1 / 2"
  unfolding js_round_def by linarith+

lemma js_round_of_int: "js_round (real_of_int k) = k"
  unfolding js_round_def by linarith

lemma clamp_centre:
  fixes nx w c :: real
  assumes "0 \<le> c"
  defines "p \<equiv> (if nx + w / 2 > c then c - w / 2 else if nx + w / 2 < 0 then - w / 2 else nx)"
  shows "0 \<le> p + w / 2" and "p + w / 2 \<le> c"
  using assms by (auto simp: p_def)

lemma round_centre:
  fixes p w c :: real
  assumes "0 \<le> p + w / 2" and "p + w / 2 \<le> c"
  shows "- 3 / 4 < real_of_int (js_round p) + real_of_int (js_round w) / 2"
    and "real_of_int (js_round p) + real_of_int (js_round w) / 2 \<le> c + 3 / 4"
  using assms js_round_bounds [of p] js_round_bounds [of w] by linarith+

lemma handleResizeDown_result:
  assumes "handleResizeDown M el isDrawing scale containerW containerH e dir ev = Inr (Some u)"
    and "resizeBox M el scale e dir ev = (newW, newH, nx, ny)"
  shows "u = \<lparr>rs_width = js_round newW, rs_height = js_round newH,
       rs_x = js_round (if nx + newW / 2 > containerW then containerW - newW / 2
                        else if nx + newW / 2 < 0 then - newW / 2 else nx),
       rs_y = js_round (if ny + newH / 2 > containerH then containerH - newH / 2
                        else if ny + newH / 2 < 0 then - newH / 2 else ny)\<rparr>"
  using assms by (auto simp: handleResizeDown_def Let_def split: if_splits)

lemma handleDragDown_clamped:
  assumes "handleDragDown el isDrawing scale containerW containerH e ev = Inr (Some u)"
    and "0 \<le> containerW" and "0 \<le> containerH"
  shows "0 \<le> drag_x u + el_width el / 2 \<and> drag_x u + el_width el / 2 \<le> containerW
       \<and> 0 \<le> drag_y u + el_height el / 2 \<and> drag_y u + el_height el / 2 \<le> containerH"
  using assms
  by (auto simp: handleDragDown_def Let_def split: if_splits)

lemma handleResizeDown_near:
  assumes "handleResizeDown M el isDrawing scale containerW containerH e dir ev = Inr (Some u)"
    and "0 \<le> containerW" and "0 \<le> containerH"
  shows "- 3 / 4 < real_of_int (rs_x u) + real_of_int (rs_width u) / 2
       \<and> real_of_int (rs_x u) + real_of_int (rs_width u) / 2 \<le> containerW + 3 / 4
       \<and> - 3 / 4 < real_of_int (rs_y u) + real_of_int (rs_height u) / 2
       \<and> real_of_int (rs_y u) + real_of_int (rs_height u) / 2 \<le> containerH + 3 / 4"
proof -
  obtain newW newH nx ny where box: "resizeBox M el scale e dir ev = (newW, newH, nx, ny)"
    by (metis prod_cases4)
  note u = handleResizeDown_result [OF assms(1) box]
  show ?thesis
    unfolding u
    using round_centre [OF clamp_centre [OF assms(2), of nx newW]]
      round_centre [OF clamp_centre [OF assms(3), of ny newH]]
    by simp
qed

lemma handleDragDown_starts:
  assumes "\<not> el_locked el" "\<not> isDrawing" "scale \<noteq> 0"
  shows "\<exists>u. handleDragDown el isDrawing scale containerW containerH e ev = Inr (Some u)"
  using assms by (simp add: handleDragDown_def Let_def)

lemma handleResizeDown_starts:
  assumes "\<not> el_locked el" "\<not> isDrawing" "scale \<noteq> 0"
  shows "\<exists>u. handleResizeDown M el isDrawing scale containerW containerH e dir ev = Inr (Some u)"
  using assms by (simp add: handleResizeDown_def Let_def split: prod.splits)

text \<open>
  The centre after a gesture. A gesture that starts (the element is not locked, nothing
  is being drawn, the zoom factor is not zero) in a container of non-negative size gives
  an update. After a move the centre of the element, \<open>(x + width/2, y + height/2)\<close>,
  lies in \<open>[0, containerW] \<times> [0, containerH]\<close>. A resize clamps the centre in the same
  way and then rounds width, height, x and y to integers, so the centre of the geometry
  it stores lies within three quarters of a unit of the container, whatever the values
  of \<open>Math.cos\<close> and \<open>Math.sin\<close>.
\<close>

theorem gesture_center_clamped:
  assumes "\<not> el_locked el" and "\<not> isDrawing" and "scale \<noteq> 0"
    and "0 \<le> containerW" and "0 \<le> containerH"
  shows "(\<exists>u. handleDragDown el isDrawing scale containerW containerH e ev = Inr (Some u)
           \<and> 0 \<le> drag_x u + el_width el / 2 \<and> drag_x u + el_width el / 2 \<le> containerW
           \<and> 0 \<le> drag_y u + el_height el / 2 \<and> drag_y u + el_height el / 2 \<le> containerH)
       \<and> (\<exists>r. handleResizeDown M el isDrawing scale containerW containerH e dir ev = Inr (Some r)
           \<and> - 3 / 4 < real_of_int (rs_x r) + real_of_int (rs_width r) / 2
           \<and> real_of_int (rs_x r) + real_of_int (rs_width r) / 2 \<le> containerW + 3 / 4
           \<and> - 3 / 4 < real_of_int (rs_y r) + real_of_int (rs_height r) / 2
           \<and> real_of_int (rs_y r) + real_of_int (rs_height r) / 2 \<le> containerH + 3 / 4)"
proof
  obtain u where u: "handleDragDown el isDrawing scale containerW containerH e ev = Inr (Some u)"
    using handleDragDown_starts [OF assms(1-3)] by blast
  show "\<exists>u. handleDragDown el isDrawing scale containerW containerH e ev = Inr (Some u)
           \<and> 0 \<le> drag_x u + el_width el / 2 \<and> drag_x u + el_width el / 2 \<le> containerW
           \<and> 0 \<le> drag_y u + el_height el / 2 \<and> drag_y u + el_height el / 2 \<le> containerH"
    using u handleDragDown_clamped [OF u assms(4,5)] by blast
next
  obtain r where r: "handleResizeDown M el isDrawing scale containerW containerH e dir ev = Inr (Some r)"
    using handleResizeDown_starts [OF assms(1-3)] by blast
  show "\<exists>r. handleResizeDown M el isDrawing scale containerW containerH e dir ev = Inr (Some r)
           \<and> - 3 / 4 < real_of_int (rs_x r) + real_of_int (rs_width r) / 2
           \<and> real_of_int (rs_x r) + real_of_int (rs_width r) / 2 \<le> containerW + 3 / 4
           \<and> - 3 / 4 < real_of_int (rs_y r) + real_of_int (rs_height r) / 2
           \<and> real_of_int (rs_y r) + real_of_int (rs_height r) / 2 \<le> containerH + 3 / 4"
    using r handleResizeDown_near [OF r assms(4,5)] by blast
qed

theorem gesture_center_clamped_witness:
  "(\<exists>u. handleDragDown (props (newGroup ''g'')) False 1 400 300
            \<lparr>clientX = 0, clientY = 0\<rparr> \<lparr>clientX = 500, clientY = - 500\<rparr> = Inr (Some u)
         \<and> 0 \<le> drag_x u + 300 / 2 \<and> drag_x u + 300 / 2 \<le> 400
         \<and> 0 \<le> drag_y u + 200 / 2 \<and> drag_y u + 200 / 2 \<le> 300)
   \<and> (\<exists>r. handleResizeDown doubleMath (props (newGroup ''g'')) False 1 400 300
            \<lparr>clientX = 0, clientY = 0\<rparr> ''e'' \<lparr>clientX = 500, clientY = - 500\<rparr> = Inr (Some r)
         \<and> - 3 / 4 < real_of_int (rs_x r) + real_of_int (rs_width r) / 2
         \<and> real_of_int (rs_x r) + real_of_int (rs_width r) / 2 \<le> 400 + 3 / 4
         \<and> - 3 / 4 < real_of_int (rs_y r) + real_of_int (rs_height r) / 2
         \<and> real_of_int (rs_y r) + real_of_int (rs_height r) / 2 \<le> 300 + 3 / 4)"
  using gesture_center_clamped [of "props (newGroup ''g'')" False 1 400 300
      "\<lparr>clientX = 0, clientY = 0\<rparr>" "\<lparr>clientX = 500, clientY = - 500\<rparr>" doubleMath "''e''"]
  by (simp add: newGroup_def)

text \<open>
  C8. After every move gesture the centre lies inside the container, as shown above.
  After a resize gesture it need not: the position is clamped (the comment there reads
  \<open>Ensure center doesn't exceed bounds\<close>) and only then rounded. For a 5 by 10 element at
  \<open>x = 95\<close> in a 100 by 100 container, handle \<open>e\<close> dragged 10 to the right, the clamped
  position 92.5 is stored as 93 with the width 15, and the centre of the stored geometry
  is at 100.5, outside \<open>[0, 100]\<close>. The element is not rotated, so \<open>Math.cos\<close> and
  \<open>Math.sin\<close> are read at 0 only, where they are 1 and 0.
\<close>

theorem resize_center_outside_container:
  "handleResizeDown doubleMath
      ((props (newGroup ''g''))\<lparr>el_x := 95, el_y := 0, el_width := 5, el_height := 10\<rparr>)
      False 1 100 100 \<lparr>clientX = 0, clientY = 0\<rparr> ''e'' \<lparr>clientX = 10, clientY = 0\<rparr>
    = Inr (Some \<lparr>rs_width = 15, rs_height = 10, rs_x = 93, rs_y = 0\<rparr>)
   \<and> real_of_int 93 + real_of_int 15 / 2 > (100::real)"
  by (simp add: handleResizeDown_def resizeBox_def doubleMath_def newGroup_def includes_char_def
        js_round_def Let_def)

lemma resizeBox_se:
  assumes "scale \<noteq> 0" and "el_rotation el = 0"
    and "Math_cos M 0 = 1" and "Math_sin M 0 = 0"
  shows "resizeBox M el scale e ''se'' ev =
     (max 4 (max 0 (el_width el) + (clientX ev - clientX e) / scale),
      max 4 (max 0 (el_height el) + (clientY ev - clientY e) / scale),
      el_x el, el_y el)"
  using assms by (simp add: resizeBox_def includes_char_def Let_def diff_divide_distrib)

text \<open>
  C6, as the code has it. A resize with the handle \<open>se\<close> of an element whose rotation is
  0 changes the width and the height by the pointer's displacement (not below 4). As
  long as the centre of the resized box stays inside the container, \<open>x\<close> and \<open>y\<close> are
  the element's own, rounded to the nearest integer, hence unchanged when they are
  integers: the north and west edges stay where they are. At the rotation 0 the
  functions \<open>Math.cos\<close> and \<open>Math.sin\<close> are read at 0 only, where ECMAScript prescribes
  the values 1 and 0; nothing else is assumed of them.
\<close>

theorem resize_se_unrotated:
  assumes "\<not> el_locked el" and "\<not> isDrawing" and "scale \<noteq> 0" and "el_rotation el = 0"
    and "Math_cos M 0 = 1" and "Math_sin M 0 = 0"
    and "newW = max 4 (max 0 (el_width el) + (clientX ev - clientX e) / scale)"
    and "newH = max 4 (max 0 (el_height el) + (clientY ev - clientY e) / scale)"
    and "0 \<le> el_x el + newW / 2" and "el_x el + newW / 2 \<le> containerW"
    and "0 \<le> el_y el + newH / 2" and "el_y el + newH / 2 \<le> containerH"
  shows "handleResizeDown M el isDrawing scale containerW containerH e ''se'' ev
       = Inr (Some \<lparr>rs_width = js_round newW, rs_height = js_round newH,
                    rs_x = js_round (el_x el), rs_y = js_round (el_y el)\<rparr>)
       \<and> (\<forall>kx ky. el_x el = real_of_int kx \<and> el_y el = real_of_int ky \<longrightarrow>
            handleResizeDown M el isDrawing scale containerW containerH e ''se'' ev
              = Inr (Some \<lparr>rs_width = js_round newW, rs_height = js_round newH,
                           rs_x = kx, rs_y = ky\<rparr>))"
proof -
  have box: "resizeBox M el scale e ''se'' ev = (newW, newH, el_x el, el_y el)"
    using resizeBox_se [OF assms(3-6)] assms(7,8) by simp
  have res: "handleResizeDown M el isDrawing scale containerW containerH e ''se'' ev
       = Inr (Some \<lparr>rs_width = js_round newW, rs_height = js_round newH,
                    rs_x = js_round (el_x el), rs_y = js_round (el_y el)\<rparr>)"
    using assms(1-3,9-12) by (simp add: handleResizeDown_def box)
  show ?thesis using res js_round_of_int by auto
qed

theorem resize_se_unrotated_witness:
  "handleResizeDown doubleMath (props (newGroup ''g'')) False 1 1000 1000
      \<lparr>clientX = 0, clientY = 0\<rparr> ''se'' \<lparr>clientX = 30, clientY = 40\<rparr>
    = Inr (Some \<lparr>rs_width = 330, rs_height = 240, rs_x = 20, rs_y = 20\<rparr>)"
  using resize_se_unrotated [of "props (newGroup ''g'')" False 1 doubleMath 330
      "\<lparr>clientX = 30, clientY = 40\<rparr>" "\<lparr>clientX = 0, clientY = 0\<rparr>" 240 1000 1000]
  by (simp add: newGroup_def doubleMath_def js_round_def)

text \<open>
  The claim as it is written fails when the centre would leave the container: a 10 by
  10 element at \<open>x = 90\<close> in a 100 by 100 container, handle \<open>se\<close> dragged 30 to the
  right. The width becomes 40 and \<open>x\<close> becomes 80: the west edge has moved.
\<close>

theorem resize_se_clamped_counterexample:
  "handleResizeDown doubleMath
      ((props (newGroup ''g''))\<lparr>el_x := 90, el_y := 0, el_width := 10, el_height := 10\<rparr>)
      False 1 100 100 \<lparr>clientX = 0, clientY = 0\<rparr> ''se'' \<lparr>clientX = 30, clientY = 0\<rparr>
    = Inr (Some \<lparr>rs_width = 40, rs_height = 10, rs_x = 80, rs_y = 0\<rparr>)
   \<and> el_rotation ((props (newGroup ''g''))\<lparr>el_x := 90, el_y := 0, el_width := 10, el_height := 10\<rparr>) = 0
   \<and> el_x ((props (newGroup ''g''))\<lparr>el_x := 90, el_y := 0, el_width := 10, el_height := 10\<rparr>) = 90"
  by (simp add: handleResizeDown_def resizeBox_def doubleMath_def newGroup_def includes_char_def
        js_round_def Let_def)

lemma resizeBox_n_90:
  assumes "scale \<noteq> 0" and "el_rotation el = 90"
    and "Math_sin M (pi / 2) = 1" and "Math_sin M (- (pi / 2)) = - 1"
    and "4 \<le> el_width el" and "0 \<le> el_height el"
    and "D = max 4 (el_height el + ((clientX ev - clientX e) / scale
                  - (clientY ev - clientY e) / scale * Math_cos M (- (pi / 2)))) - el_height el"
  shows "resizeBox M el scale e ''n'' ev =
     (el_width el, el_height el + D, el_x el + D / 2,
      el_y el + el_height el / 2 - D / 2 * Math_cos M (pi / 2) - (el_height el + D) / 2)"
proof -
  have w: "max 4 (max 0 (el_width el)) = el_width el" and h: "max 0 (el_height el) = el_height el"
    using assms(5,6) by simp_all
  have rad: "el_rotation el * pi / 180 = pi / 2" using assms(2) by simp
  show ?thesis
    unfolding resizeBox_def Let_def rad h
    using assms(3,4,5)
    by (simp add: includes_char_def assms(7) diff_divide_distrib add_divide_distrib)
      (simp add: algebra_simps)
qed

lemma clamp_near:
  fixes nx w c T :: real
  assumes "0 \<le> T" and "T \<le> c"
  shows "\<bar>(if nx + w / 2 > c then c - w / 2 else if nx + w / 2 < 0 then - w / 2 else nx)
           + w / 2 - T\<bar> \<le> \<bar>nx + w / 2 - T\<bar>"
  using assms by auto

lemma js_round_near: "\<bar>real_of_int (js_round v) - v\<bar> \<le> 1 / 2"
  using js_round_bounds [of v] by linarith

lemma js_round_within:
  fixes v t tol :: real
  assumes "\<bar>v - t\<bar> \<le> tol"
  shows "\<bar>real_of_int (js_round v) - t\<bar> \<le> 1 / 2 + tol"
  using assms js_round_near [of v] by argo

lemma int_near: "\<bar>real_of_int j - real_of_int k\<bar> < 1 \<Longrightarrow> j = k"
  by linarith

lemma quarter_turn_residue:
  fixes h X Y c c' eps d D :: real
  assumes "\<bar>c\<bar> \<le> eps" and "\<bar>c'\<bar> \<le> eps" and "eps \<le> 1"
    and "d = max 4 (h + X) - h" and "D = max 4 (h + (X - Y * c')) - h"
  shows "\<bar>D - d\<bar> \<le> eps * \<bar>Y\<bar>" and "\<bar>D * c\<bar> \<le> eps * \<bar>Y\<bar> + eps * \<bar>d\<bar>"
proof -
  have e0: "0 \<le> eps" using assms(1) by linarith
  have "\<bar>Y * c'\<bar> = \<bar>c'\<bar> * \<bar>Y\<bar>" by (simp add: abs_mult)
  also have "\<dots> \<le> eps * \<bar>Y\<bar>" using assms(2) by (intro mult_right_mono) auto
  finally have yc: "\<bar>Y * c'\<bar> \<le> eps * \<bar>Y\<bar>" .
  show dd: "\<bar>D - d\<bar> \<le> eps * \<bar>Y\<bar>"
    using yc unfolding assms(4,5) by (simp add: max_def) linarith
  have "\<bar>D\<bar> \<le> \<bar>d\<bar> + eps * \<bar>Y\<bar>" using dd by linarith
  then have "\<bar>D\<bar> * \<bar>c\<bar> \<le> (\<bar>d\<bar> + eps * \<bar>Y\<bar>) * eps"
    using assms(1) e0 by (intro mult_mono) auto
  also have "\<dots> = eps * \<bar>d\<bar> + eps * (eps * \<bar>Y\<bar>)" by (simp add: algebra_simps)
  also have "\<dots> \<le> eps * \<bar>d\<bar> + 1 * (eps * \<bar>Y\<bar>)"
    using assms(3) e0 by (intro add_left_mono mult_right_mono) auto
  finally show "\<bar>D * c\<bar> \<le> eps * \<bar>Y\<bar> + eps * \<bar>d\<bar>" by (simp add: abs_mult)
qed

text \<open>
  C7, as the code has it. Take a resize with the handle \<open>n\<close> of an element rotated by 90
  degrees, of width at least 4, and let \<open>d\<close> be the change of height that the horizontal
  displacement of the pointer asks for (the height does not go below 4), with the
  centre of the box so resized inside the container. At a quarter turn \<open>Math.sin\<close> is 1
  and \<open>Math.cos\<close> is a residue of size \<open>eps\<close>, about \<open>6.1e-17\<close>, through which alone the
  vertical displacement enters. The stored height is \<open>height + d\<close>, the stored \<open>x\<close> is
  \<open>x + d/2\<close> and the stored \<open>y\<close> is \<open>y - d/2\<close>, each up to the rounding to an integer and
  the residue: within \<open>1/2 + tol\<close>, and equal to these values when they are integers.
  Both coordinates of the top-left corner move, by half the horizontal displacement
  each; which way a value that ends in one half is rounded depends on the residue.
\<close>

theorem resize_n_rotated_90:
  assumes "\<not> el_locked el" and "\<not> isDrawing" and "scale \<noteq> 0" and "el_rotation el = 90"
    and "Math_sin M (pi / 2) = 1" and "Math_sin M (- (pi / 2)) = - 1"
    and "\<bar>Math_cos M (pi / 2)\<bar> \<le> eps" and "\<bar>Math_cos M (- (pi / 2))\<bar> \<le> eps" and "eps \<le> 1"
    and "4 \<le> el_width el" and "0 \<le> el_height el"
    and "d = max 4 (el_height el + (clientX ev - clientX e) / scale) - el_height el"
    and "eps * (\<bar>(clientY ev - clientY e) / scale\<bar> + \<bar>d\<bar>) \<le> tol" and "tol < 1 / 2"
    and "0 \<le> el_x el + d / 2 + el_width el / 2"
    and "el_x el + d / 2 + el_width el / 2 \<le> containerW"
    and "0 \<le> el_y el + el_height el / 2"
    and "el_y el + el_height el / 2 \<le> containerH"
  shows "\<exists>u. handleResizeDown M el isDrawing scale containerW containerH e ''n'' ev = Inr (Some u)
       \<and> rs_width u = js_round (el_width el)
       \<and> \<bar>real_of_int (rs_height u) - (el_height el + d)\<bar> \<le> 1 / 2 + tol
       \<and> \<bar>real_of_int (rs_x u) - (el_x el + d / 2)\<bar> \<le> 1 / 2 + tol
       \<and> \<bar>real_of_int (rs_y u) - (el_y el - d / 2)\<bar> \<le> 1 / 2 + tol
       \<and> (\<forall>k. el_height el + d = real_of_int k \<longrightarrow> rs_height u = k)
       \<and> (\<forall>k. el_x el + d / 2 = real_of_int k \<longrightarrow> rs_x u = k)
       \<and> (\<forall>k. el_y el - d / 2 = real_of_int k \<longrightarrow> rs_y u = k)"
proof -
  let ?c = "Math_cos M (pi / 2)" and ?c' = "Math_cos M (- (pi / 2))"
  let ?h = "el_height el" and ?w = "el_width el"
  define X where "X = (clientX ev - clientX e) / scale"
  define Y where "Y = (clientY ev - clientY e) / scale"
  define D where "D = max 4 (?h + (X - Y * ?c')) - ?h"
  define nx where "nx = el_x el + D / 2"
  define ny where "ny = el_y el + ?h / 2 - D / 2 * ?c - (?h + D) / 2"
  define fx where "fx = (if nx + ?w / 2 > containerW then containerW - ?w / 2
                         else if nx + ?w / 2 < 0 then - ?w / 2 else nx)"
  define fy where "fy = (if ny + (?h + D) / 2 > containerH then containerH - (?h + D) / 2
                         else if ny + (?h + D) / 2 < 0 then - (?h + D) / 2 else ny)"
  define a where "a = eps * \<bar>Y\<bar>"
  define b where "b = eps * \<bar>d\<bar>"
  have box: "resizeBox M el scale e ''n'' ev = (?w, ?h + D, nx, ny)"
    unfolding nx_def ny_def
    by (rule resizeBox_n_90 [OF assms(3,4,5,6,10,11) D_def [unfolded X_def Y_def]])
  obtain u where res: "handleResizeDown M el isDrawing scale containerW containerH e ''n'' ev
      = Inr (Some u)"
    using handleResizeDown_starts [OF assms(1-3)] by blast
  have u: "u = \<lparr>rs_width = js_round ?w, rs_height = js_round (?h + D),
                 rs_x = js_round fx, rs_y = js_round fy\<rparr>"
    unfolding fx_def fy_def by (rule handleResizeDown_result [OF res box])
  have q: "\<bar>D - d\<bar> \<le> a" "\<bar>D * ?c\<bar> \<le> a + b"
    unfolding a_def b_def
    by (rule quarter_turn_residue [OF assms(7,8,9) assms(12) [folded X_def] D_def])+
  have sum: "a + b \<le> tol"
    using assms(13) unfolding a_def b_def Y_def by (simp only: distrib_left)
  have e0: "0 \<le> eps" using assms(7) by linarith
  have ab: "0 \<le> a" "0 \<le> b" unfolding a_def b_def using e0 by simp_all
  have cx: "\<bar>fx + ?w / 2 - (el_x el + d / 2 + ?w / 2)\<bar> \<le> \<bar>nx + ?w / 2 - (el_x el + d / 2 + ?w / 2)\<bar>"
    unfolding fx_def by (rule clamp_near [OF assms(15,16)])
  have cy: "\<bar>fy + (?h + D) / 2 - (el_y el + ?h / 2)\<bar> \<le> \<bar>ny + (?h + D) / 2 - (el_y el + ?h / 2)\<bar>"
    unfolding fy_def by (rule clamp_near [OF assms(17,18)])
  have hgt: "\<bar>(?h + D) - (?h + d)\<bar> \<le> tol" using q(1) sum ab by argo
  have fxn: "\<bar>fx - (el_x el + d / 2)\<bar> \<le> tol"
    using cx q(1) sum ab unfolding nx_def by argo
  have "ny + (?h + D) / 2 - (el_y el + ?h / 2) = - (D * ?c / 2)"
    unfolding ny_def by simp
  then have nyq: "\<bar>ny + (?h + D) / 2 - (el_y el + ?h / 2)\<bar> = \<bar>D * ?c\<bar> / 2"
    by simp
  have nyc: "\<bar>ny + (?h + D) / 2 - (el_y el + ?h / 2)\<bar> \<le> (a + b) / 2"
    unfolding nyq using q(2) by simp
  note A = abs_le_D1 [OF order_trans [OF cy nyc]] abs_le_D2 [OF order_trans [OF cy nyc]]
  note B = abs_le_D1 [OF q(1)] abs_le_D2 [OF q(1)]
  have fyn: "\<bar>fy - (el_y el - d / 2)\<bar> \<le> tol"
  proof (rule abs_leI)
    show "fy - (el_y el - d / 2) \<le> tol" using A B sum ab by argo
    show "- (fy - (el_y el - d / 2)) \<le> tol" using A B sum ab by argo
  qed
  have rh: "\<bar>real_of_int (rs_height u) - (?h + d)\<bar> \<le> 1 / 2 + tol"
    using js_round_within [OF hgt] unfolding u by simp
  have rx: "\<bar>real_of_int (rs_x u) - (el_x el + d / 2)\<bar> \<le> 1 / 2 + tol"
    using js_round_within [OF fxn] unfolding u by simp
  have ry: "\<bar>real_of_int (rs_y u) - (el_y el - d / 2)\<bar> \<le> 1 / 2 + tol"
    using js_round_within [OF fyn] unfolding u by simp
  have ih: "\<forall>k. ?h + d = real_of_int k \<longrightarrow> rs_height u = k"
    using rh assms(14) by (auto intro!: int_near)
  have ix: "\<forall>k. el_x el + d / 2 = real_of_int k \<longrightarrow> rs_x u = k"
    using rx assms(14) by (auto intro!: int_near)
  have iy: "\<forall>k. el_y el - d / 2 = real_of_int k \<longrightarrow> rs_y u = k"
    using ry assms(14) by (auto intro!: int_near)
  have rw: "rs_width u = js_round ?w" unfolding u by simp
  show ?thesis using res rw rh rx ry ih ix iy by blast
qed

theorem resize_n_rotated_90_witness:
  "\<exists>u. handleResizeDown doubleMath ((props (newGroup ''g''))\<lparr>el_rotation := 90\<rparr>) False 1 1000 1000
      \<lparr>clientX = 0, clientY = 0\<rparr> ''n'' \<lparr>clientX = 20, clientY = 7\<rparr> = Inr (Some u)
     \<and> rs_width u = 300 \<and> rs_height u = 220 \<and> rs_x u = 30 \<and> rs_y u = 10"
proof -
  let ?el = "(props (newGroup ''g''))\<lparr>el_rotation := 90\<rparr>"
  have "\<exists>u. handleResizeDown doubleMath ?el False 1 1000 1000
        \<lparr>clientX = 0, clientY = 0\<rparr> ''n'' \<lparr>clientX = 20, clientY = 7\<rparr> = Inr (Some u)
       \<and> rs_width u = js_round (el_width ?el)
       \<and> \<bar>real_of_int (rs_height u) - (el_height ?el + 20)\<bar> \<le> 1 / 2 + 1 / 10 ^ 10
       \<and> \<bar>real_of_int (rs_x u) - (el_x ?el + 20 / 2)\<bar> \<le> 1 / 2 + 1 / 10 ^ 10
       \<and> \<bar>real_of_int (rs_y u) - (el_y ?el - 20 / 2)\<bar> \<le> 1 / 2 + 1 / 10 ^ 10
       \<and> (\<forall>k. el_height ?el + 20 = real_of_int k \<longrightarrow> rs_height u = k)
       \<and> (\<forall>k. el_x ?el + 20 / 2 = real_of_int k \<longrightarrow> rs_x u = k)
       \<and> (\<forall>k. el_y ?el - 20 / 2 = real_of_int k \<longrightarrow> rs_y u = k)"
    by (rule resize_n_rotated_90 [where eps = "1 / 10 ^ 16"])
      (simp_all add: newGroup_def doubleMath_def)
  then obtain u where r: "handleResizeDown doubleMath ?el False 1 1000 1000
        \<lparr>clientX = 0, clientY = 0\<rparr> ''n'' \<lparr>clientX = 20, clientY = 7\<rparr> = Inr (Some u)"
    and w: "rs_width u = js_round (el_width ?el)"
    and ih: "\<And>k. el_height ?el + 20 = real_of_int k \<Longrightarrow> rs_height u = k"
    and ix: "\<And>k. el_x ?el + 20 / 2 = real_of_int k \<Longrightarrow> rs_x u = k"
    and iy: "\<And>k. el_y ?el - 20 / 2 = real_of_int k \<Longrightarrow> rs_y u = k"
    by blast
  have "rs_width u = 300" using w by (simp add: newGroup_def js_round_def)
  moreover have "rs_height u = 220" by (rule ih) (simp add: newGroup_def)
  moreover have "rs_x u = 30" by (rule ix) (simp add: newGroup_def)
  moreover have "rs_y u = 10" by (rule iy) (simp add: newGroup_def)
  ultimately show ?thesis using r by blast
qed

text \<open>
  The claim as it is written fails on the default group (at (20, 20), 300 by 200)
  rotated by 90 degrees, handle \<open>n\<close> dragged 20 to the right: \<open>x\<close> goes from 20 to 30,
  a change of 10 and not of 20, and \<open>y\<close> goes from 20 to 10.
\<close>

theorem resize_n_rotated_90_counterexample:
  "handleResizeDown doubleMath ((props (newGroup ''g''))\<lparr>el_rotation := 90\<rparr>) False 1 1000 1000
      \<lparr>clientX = 0, clientY = 0\<rparr> ''n'' \<lparr>clientX = 20, clientY = 0\<rparr>
    = Inr (Some \<lparr>rs_width = 300, rs_height = 220, rs_x = 30, rs_y = 10\<rparr>)
   \<and> el_x ((props (newGroup ''g''))\<lparr>el_rotation := 90\<rparr>) = 20
   \<and> el_y ((props (newGroup ''g''))\<lparr>el_rotation := 90\<rparr>) = 20"
  by (simp add: handleResizeDown_def resizeBox_def doubleMath_def newGroup_def includes_char_def
        js_round_def Let_def)

text \<open>
  At a tie the residue decides. On the same group, with the pointer moved by 1 to the
  right and by 1000 down, \<open>x + d/2\<close> is 20.5 and the residue of the cosine takes the
  value just below it: the stored \<open>x\<close> is 20.
\<close>

lemma resize_n_quarter_turn_tie:
  "\<exists>u. handleResizeDown doubleMath ((props (newGroup ''g''))\<lparr>el_rotation := 90\<rparr>) False 1 1000 1000
      \<lparr>clientX = 0, clientY = 0\<rparr> ''n'' \<lparr>clientX = 1, clientY = 1000\<rparr> = Inr (Some u)
     \<and> rs_x u = 20"
  by (simp add: handleResizeDown_def resizeBox_def doubleMath_def newGroup_def includes_char_def
        js_round_def Let_def)

section \<open>Snapshots of the expected types never fail\<close>

lemma elProp_numeric:
  assumes "p \<in> set NUMERIC_KEYFRAME_PROPS"
  shows "elProp el p \<noteq> Some (Str w)"
  using assms by (cases p) (auto simp: NUMERIC_KEYFRAME_PROPS_def)

lemma elProp_color:
  assumes "p \<in> set COLOR_KEYFRAME_PROPS"
  shows "elProp el p \<noteq> Some (Num n)"
  using assms by (cases p) (auto simp: COLOR_KEYFRAME_PROPS_def)

lemma wellTyped_numeric:
  assumes "wellTyped st" and "p \<in> set NUMERIC_KEYFRAME_PROPS"
  shows "st p \<noteq> Some (Str w)"
proof -
  have "case st p of Some (Str w) \<Rightarrow> False | _ \<Rightarrow> True"
    using assms by (simp add: wellTyped_def list_all_iff)
  then show ?thesis by (auto split: option.splits jsval.splits)
qed

lemma wellTyped_color:
  assumes "wellTyped st" and "p \<in> set COLOR_KEYFRAME_PROPS"
  shows "st p \<noteq> Some (Num n)"
proof -
  have "case st p of Some (Num n) \<Rightarrow> False | _ \<Rightarrow> True"
    using assms by (simp add: wellTyped_def list_all_iff)
  then show ?thesis by (auto split: option.splits jsval.splits)
qed

lemma numeric_operand:
  assumes "wellTyped st" and "p \<in> set NUMERIC_KEYFRAME_PROPS"
  shows "\<exists>u. nullish (st p) (nullish (elProp el p) (Num 0)) = Num u"
proof (cases "st p")
  case None
  then show ?thesis
    using elProp_numeric [OF assms(2), of el]
    by (auto simp: nullish_def split: option.splits) (metis jsval.exhaust)
next
  case (Some v)
  then show ?thesis
    using wellTyped_numeric [OF assms] by (cases v) (auto simp: nullish_def)
qed

lemma color_operand:
  assumes "wellTyped st" and "p \<in> set COLOR_KEYFRAME_PROPS"
  shows "\<exists>u. nullish (st p) (nullish (elProp el p) (Str ''#000000'')) = Str u"
proof (cases "st p")
  case None
  then show ?thesis
    using elProp_color [OF assms(2), of el]
    by (auto simp: nullish_def split: option.splits) (metis jsval.exhaust)
next
  case (Some v)
  then show ?thesis
    using wellTyped_color [OF assms] by (cases v) (auto simp: nullish_def)
qed

lemma interpolateProp_wellTyped:
  assumes "wellTyped ps" and "wellTyped ns"
  shows "interpolateProp el ps ns t p \<noteq> Some (Inl e)"
proof (cases "p \<in> set NUMERIC_KEYFRAME_PROPS")
  case True
  obtain u v where "nullish (ps p) (nullish (elProp el p) (Num 0)) = Num u"
    "nullish (ns p) (nullish (elProp el p) (Num 0)) = Num v"
    using numeric_operand [OF assms(1) True] numeric_operand [OF assms(2) True] by blast
  then show ?thesis using True by (simp add: interpolateProp_def Let_def)
next
  case False
  show ?thesis
  proof (cases "p \<in> set COLOR_KEYFRAME_PROPS")
    case True
    obtain u v where "nullish (ps p) (nullish (elProp el p) (Str ''#000000'')) = Str u"
      "nullish (ns p) (nullish (elProp el p) (Str ''#000000'')) = Str v"
      using color_operand [OF assms(1) True] color_operand [OF assms(2) True] by blast
    then show ?thesis using True False by (simp add: interpolateProp_def Let_def)
  next
    case c: False
    then show ?thesis using False by (simp add: interpolateProp_def Let_def)
  qed
qed

lemma interpolateProps_wellTyped:
  assumes "wellTyped ps" and "wellTyped ns"
  shows "interpolateProps el ps ns t
       = Inr (\<lambda>p. case interpolateProp el ps ns t p of Some (Inr v) \<Rightarrow> Some v | _ \<Rightarrow> None)"
  using interpolateProp_wellTyped [OF assms]
  by (simp add: interpolateProps_def list_ex_iff)

lemma findPair_mem:
  "findPair s t = Some (a, b) \<Longrightarrow> a \<in> set s \<and> b \<in> set s"
  by (induction s t rule: findPair.induct) (auto split: if_splits)

lemma bracket_two:
  assumes "length s \<ge> 2"
  shows "\<exists>a b. bracket s t = Inr (a, b) \<and> a \<in> set s \<and> b \<in> set s"
proof (cases "findPair s t")
  case None
  obtain x y r where "s = x # y # r"
    using assms by (metis One_nat_def Suc_1 Suc_le_length_iff)
  then show ?thesis using None by (simp add: bracket_def)
next
  case (Some pn)
  then show ?thesis using findPair_mem [of s t "fst pn" "snd pn"] by (cases pn) (simp add: bracket_def)
qed

lemma hd_last_differ_length:
  assumes "s \<noteq> []" and "f (hd s) \<noteq> f (last s)"
  shows "length s \<ge> 2"
  using assms by (cases s) (auto simp: Suc_le_eq)

lemma interpolate_total:
  assumes "\<forall>k \<in> set kfs. wellTyped (getState elId k)"
  shows "\<exists>r. interpolateElementFromGlobal kfs elId el time = Inr r"
proof (cases "kfs = []")
  case True
  then show ?thesis by (simp add: interpolateElementFromGlobal_def)
next
  case False
  let ?s = "sort_key kf_time kfs"
  have ne: "?s \<noteq> []" using False by (metis length_0_conv length_sort)
  show ?thesis
  proof (cases "time \<le> kf_time (hd ?s) \<or> time \<ge> kf_time (last ?s)")
    case True
    then show ?thesis using False by (auto simp: interpolateElementFromGlobal_def Let_def)
  next
    case inside: False
    then have "kf_time (hd ?s) \<noteq> kf_time (last ?s)" by auto
    then have "length ?s \<ge> 2" using hd_last_differ_length [OF ne] by blast
    then obtain a b where br: "bracket ?s time = Inr (a, b)" and mem: "a \<in> set ?s" "b \<in> set ?s"
      using bracket_two by blast
    have wt: "wellTyped (getState elId a)" "wellTyped (getState elId b)"
      using assms mem by auto
    show ?thesis
      using False inside br interpolateProps_wellTyped [OF wt]
      by (simp add: interpolateElementFromGlobal_def Let_def)
  qed
qed


lemma overridesOf_total:
  assumes "\<forall>k \<in> (case kfs of None \<Rightarrow> {} | Some ks \<Rightarrow> set ks). wellTyped (getState (el_id el) k)"
  shows "\<exists>ov. overridesOf time kfs el = Inr ov"
proof (cases kfs)
  case None
  then show ?thesis by (simp add: overridesOf_def split: option.splits)
next
  case (Some ks)
  then have "\<forall>k \<in> set ks. wellTyped (getState (el_id el) k)" using assms by simp
  then show ?thesis
    using Some interpolate_total [of ks "el_id el" el]
    by (auto simp: overridesOf_def split: option.splits)
qed

lemma flatten_total_aux:
  "(\<forall>x \<in> set (elementsOf e). \<exists>ov. overridesOf time kfs x = Inr ov)
     \<longrightarrow> (\<exists>st'. flattenEl time kfs e st = Inr st')"
  "(\<forall>x \<in> set (elementsOfList es). \<exists>ov. overridesOf time kfs x = Inr ov)
     \<longrightarrow> (\<exists>st'. flatten time kfs es st = Inr st')"
proof (induction time kfs e st and time kfs es st rule: flattenEl_flatten.induct)
  case (1 time kfs el chs states)
  show ?case
  proof
    assume a: "\<forall>x \<in> set (elementsOf (OverlayElement el chs)). \<exists>ov. overridesOf time kfs x = Inr ov"
    then obtain ov where ov: "overridesOf time kfs el = Inr ov" by auto
    show "\<exists>st'. flattenEl time kfs (OverlayElement el chs) states = Inr st'"
    proof (cases chs)
      case None
      then show ?thesis using ov by simp
    next
      case (Some cs)
      have "\<forall>x \<in> set (elementsOfList cs). \<exists>ov. overridesOf time kfs x = Inr ov"
        using a Some by simp
      then show ?thesis using "1.IH" [OF ov refl Some] ov Some by (simp add: fun_upd_def)
    qed
  qed
next
  case (2 time kfs states)
  show ?case by simp
next
  case (3 time kfs e es states)
  show ?case
  proof
    assume a: "\<forall>x \<in> set (elementsOfList (e # es)). \<exists>ov. overridesOf time kfs x = Inr ov"
    then obtain st1 where st1: "flattenEl time kfs e states = Inr st1"
      using "3.IH"(1) by auto
    have "\<exists>st'. flatten time kfs es st1 = Inr st'"
      using "3.IH"(2) [OF st1] a by auto
    then show "\<exists>st'. flatten time kfs (e # es) states = Inr st'"
      using st1 by simp
  qed
qed

lemma flatten_entries_aux:
  "flattenEl time kfs e st = Inr st' \<longrightarrow> distinct (map el_id (elementsOf e)) \<longrightarrow>
     (\<forall>x \<in> set (elementsOf e). \<exists>ov. overridesOf time kfs x = Inr ov
         \<and> st' (el_id x) = Some (elementState (stateElProp x ov)))
     \<and> (\<forall>i. i \<notin> el_id ` set (elementsOf e) \<longrightarrow> st' i = st i)"
  "flatten time kfs es st = Inr st' \<longrightarrow> distinct (map el_id (elementsOfList es)) \<longrightarrow>
     (\<forall>x \<in> set (elementsOfList es). \<exists>ov. overridesOf time kfs x = Inr ov
         \<and> st' (el_id x) = Some (elementState (stateElProp x ov)))
     \<and> (\<forall>i. i \<notin> el_id ` set (elementsOfList es) \<longrightarrow> st' i = st i)"
proof (induction time kfs e st and time kfs es st arbitrary: st' and st'
    rule: flattenEl_flatten.induct)
  case (1 time kfs el chs states)
  show ?case
  proof (intro impI)
    assume r: "flattenEl time kfs (OverlayElement el chs) states = Inr st'"
      and d: "distinct (map el_id (elementsOf (OverlayElement el chs)))"
    from r obtain ov where ov: "overridesOf time kfs el = Inr ov"
      by (cases "overridesOf time kfs el") auto
    let ?s1 = "states(el_id el \<mapsto> elementState (stateElProp el ov))"
    show "(\<forall>x \<in> set (elementsOf (OverlayElement el chs)). \<exists>ov. overridesOf time kfs x = Inr ov
         \<and> st' (el_id x) = Some (elementState (stateElProp x ov)))
     \<and> (\<forall>i. i \<notin> el_id ` set (elementsOf (OverlayElement el chs)) \<longrightarrow> st' i = states i)"
    proof (cases chs)
      case None
      then have "st' = ?s1" using r ov by simp
      then show ?thesis using None ov by auto
    next
      case (Some cs)
      then have rc: "flatten time kfs cs ?s1 = Inr st'" using r ov by simp
      have dc: "distinct (map el_id (elementsOfList cs))"
        and nin: "el_id el \<notin> el_id ` set (elementsOfList cs)"
        using d Some by auto
      note ih = "1.IH" [OF ov refl Some, of st', rule_format, OF rc dc]
      have "st' (el_id el) = ?s1 (el_id el)" using ih nin by blast
      then have own: "st' (el_id el) = Some (elementState (stateElProp el ov))" by simp
      show ?thesis using ih own ov Some by auto
    qed
  qed
next
  case (2 time kfs states)
  show ?case by simp
next
  case (3 time kfs e es states)
  show ?case
  proof (intro impI)
    assume r: "flatten time kfs (e # es) states = Inr st'"
      and d: "distinct (map el_id (elementsOfList (e # es)))"
    from r obtain st1 where st1: "flattenEl time kfs e states = Inr st1"
      by (cases "flattenEl time kfs e states") auto
    then have r2: "flatten time kfs es st1 = Inr st'" using r by simp
    have d1: "distinct (map el_id (elementsOf e))"
      and d2: "distinct (map el_id (elementsOfList es))"
      and dj: "el_id ` set (elementsOf e) \<inter> el_id ` set (elementsOfList es) = {}"
      using d by auto
    note ih1 = "3.IH"(1) [of st1, rule_format, OF st1 d1]
    note ih2 = "3.IH"(2) [OF st1, of st', rule_format, OF r2 d2]
    show "(\<forall>x \<in> set (elementsOfList (e # es)). \<exists>ov. overridesOf time kfs x = Inr ov
         \<and> st' (el_id x) = Some (elementState (stateElProp x ov)))
     \<and> (\<forall>i. i \<notin> el_id ` set (elementsOfList (e # es)) \<longrightarrow> st' i = states i)"
    proof (intro conjI ballI allI impI)
      fix x assume x: "x \<in> set (elementsOfList (e # es))"
      show "\<exists>ov. overridesOf time kfs x = Inr ov
         \<and> st' (el_id x) = Some (elementState (stateElProp x ov))"
      proof (cases "x \<in> set (elementsOfList es)")
        case True
        then show ?thesis using ih2 by blast
      next
        case False
        then have xe: "x \<in> set (elementsOf e)" using x by simp
        then have "el_id x \<notin> el_id ` set (elementsOfList es)" using dj by blast
        then have "st' (el_id x) = st1 (el_id x)" using ih2 by blast
        then show ?thesis using ih1 xe by auto
      qed
    next
      fix i assume "i \<notin> el_id ` set (elementsOfList (e # es))"
      then have "i \<notin> el_id ` set (elementsOf e)" "i \<notin> el_id ` set (elementsOfList es)"
        by auto
      then show "st' i = states i" using ih1 ih2 by metis
    qed
  qed
qed


lemma snapshot_total:
  assumes "\<forall>k \<in> (case kfs of None \<Rightarrow> {} | Some ks \<Rightarrow> set ks).
             \<forall>x \<in> set (elementsOfList elements). wellTyped (getState (el_id x) k)"
  shows "\<exists>states. snapshotAllElements elements time kfs = Inr states"
proof -
  have "\<forall>x \<in> set (elementsOfList elements). \<exists>ov. overridesOf time kfs x = Inr ov"
    using assms overridesOf_total by blast
  then show ?thesis
    using flatten_total_aux(2) [of elements time kfs Map.empty]
    by (simp add: snapshotAllElements_def)
qed

section \<open>Inserting a keyframe\<close>

lemma rounded_time_near: "\<bar>real_of_int (js_round (time * 100)) / 100 - time\<bar> \<le> 1 / 200"
proof -
  have "\<bar>real_of_int (js_round (time * 100)) - time * 100\<bar> \<le> 1 / 2"
    using js_round_bounds [of "time * 100"] by linarith
  then show ?thesis by (simp add: field_simps)
qed

lemma filter_near_after_far:
  "filter (\<lambda>k. \<bar>kf_time k - time\<bar> \<le> 1 / 100) (filter (\<lambda>k. \<bar>kf_time k - time\<bar> > 0.01) ks) = []"
  by (induction ks) auto

text \<open>
  C4, as the code has it. \<open>addGlobalKeyframe(time)\<close> succeeds on every timeline whose
  snapshots have the expected types. Whenever it succeeds, the new list of keyframes is
  the old one without the keyframes whose time differs from the argument \<open>time\<close> by at
  most 0.01, followed by the new keyframe. The new keyframe is stored at \<open>time\<close> rounded
  to two decimals, which is at most 0.005 from \<open>time\<close>. The window of 0.01 is measured
  from the argument, not from the time that is stored: the new keyframe is the only
  keyframe within 0.01 of the argument, and every old keyframe that is kept is more than
  0.005 from the stored time, but it may be less than 0.01 from it. With a keyframe at
  1.0, inserting at 1.005 leaves the new keyframe alone.
\<close>

theorem addGlobalKeyframe_replaces:
  "((\<forall>k \<in> set (keyframes timeline).
       \<forall>x \<in> set (elementsOfList elements). wellTyped (getState (el_id x) k)) \<longrightarrow>
     (\<exists>tl'. addGlobalKeyframe newId timeline elements time = Inr tl'))
   \<and> (\<forall>tl'. addGlobalKeyframe newId timeline elements time = Inr tl' \<longrightarrow>
        (\<exists>kf. keyframes tl'
                = filter (\<lambda>k. \<bar>kf_time k - time\<bar> > 1 / 100) (keyframes timeline) @ [kf]
            \<and> kf_id kf = newId
            \<and> kf_time kf = real_of_int (js_round (time * 100)) / 100
            \<and> \<bar>kf_time kf - time\<bar> \<le> 1 / 200
            \<and> filter (\<lambda>k. \<bar>kf_time k - time\<bar> \<le> 1 / 100) (keyframes tl') = [kf]
            \<and> (\<forall>k \<in> set (filter (\<lambda>k. \<bar>kf_time k - time\<bar> > 1 / 100) (keyframes timeline)).
                  \<bar>kf_time k - kf_time kf\<bar> > 1 / 200)))"
proof (intro conjI impI allI)
  assume "\<forall>k \<in> set (keyframes timeline).
       \<forall>x \<in> set (elementsOfList elements). wellTyped (getState (el_id x) k)"
  then obtain states where
    "snapshotAllElements elements (Some time) (Some (keyframes timeline)) = Inr states"
    using snapshot_total [of "Some (keyframes timeline)" elements "Some time"] by auto
  then show "\<exists>tl'. addGlobalKeyframe newId timeline elements time = Inr tl'"
    by (simp add: addGlobalKeyframe_def Let_def)
next
  fix tl'
  assume r: "addGlobalKeyframe newId timeline elements time = Inr tl'"
  then obtain states where st:
    "snapshotAllElements elements (Some time) (Some (keyframes timeline)) = Inr states"
    by (cases "snapshotAllElements elements (Some time) (Some (keyframes timeline))")
      (auto simp: addGlobalKeyframe_def)
  let ?kf = "\<lparr>kf_id = newId, kf_time = real_of_int (js_round (time * 100)) / 100,
              kf_easing = Linear, elementStates = states\<rparr>"
  have tl: "tl' = timeline\<lparr>keyframes :=
      filter (\<lambda>k. \<bar>kf_time k - time\<bar> > 0.01) (keyframes timeline) @ [?kf]\<rparr>"
    using r st by (simp add: addGlobalKeyframe_def Let_def)
  have near: "\<bar>kf_time ?kf - time\<bar> \<le> 1 / 200"
    using rounded_time_near [of time] by simp
  have only: "filter (\<lambda>k. \<bar>kf_time k - time\<bar> \<le> 1 / 100) (keyframes tl') = [?kf]"
    unfolding tl using near filter_near_after_far [of time "keyframes timeline"] by simp
  have far: "\<bar>kf_time k - kf_time ?kf\<bar> > 1 / 200"
    if "k \<in> set (filter (\<lambda>k. \<bar>kf_time k - time\<bar> > 1 / 100) (keyframes timeline))" for k
  proof -
    have "\<bar>kf_time k - time\<bar> > 1 / 100" using that by simp
    then show ?thesis using near by argo
  qed
  show "\<exists>kf. keyframes tl'
                = filter (\<lambda>k. \<bar>kf_time k - time\<bar> > 1 / 100) (keyframes timeline) @ [kf]
            \<and> kf_id kf = newId
            \<and> kf_time kf = real_of_int (js_round (time * 100)) / 100
            \<and> \<bar>kf_time kf - time\<bar> \<le> 1 / 200
            \<and> filter (\<lambda>k. \<bar>kf_time k - time\<bar> \<le> 1 / 100) (keyframes tl') = [kf]
            \<and> (\<forall>k \<in> set (filter (\<lambda>k. \<bar>kf_time k - time\<bar> > 1 / 100) (keyframes timeline)).
                  \<bar>kf_time k - kf_time kf\<bar> > 1 / 200)"
  proof (intro exI [of _ ?kf] conjI ballI)
    show "keyframes tl'
        = filter (\<lambda>k. \<bar>kf_time k - time\<bar> > 1 / 100) (keyframes timeline) @ [?kf]"
      by (simp add: tl)
    show "kf_id ?kf = newId" by simp
    show "kf_time ?kf = real_of_int (js_round (time * 100)) / 100" by simp
    show "\<bar>kf_time ?kf - time\<bar> \<le> 1 / 200" by (rule near)
    show "filter (\<lambda>k. \<bar>kf_time k - time\<bar> \<le> 1 / 100) (keyframes tl') = [?kf]" by (rule only)
    show "\<bar>kf_time k - kf_time ?kf\<bar> > 1 / 200"
      if "k \<in> set (filter (\<lambda>k. \<bar>kf_time k - time\<bar> > 1 / 100) (keyframes timeline))" for k
      using that by (rule far)
  qed
qed

theorem addGlobalKeyframe_replaces_witness:
  "\<exists>tl'. addGlobalKeyframe ''new''
       \<lparr>duration = 5, loop = False, autoplay = False, speed = 1,
        keyframes = [\<lparr>kf_id = ''old'', kf_time = 1, kf_easing = Linear,
                      elementStates = Map.empty\<rparr>]\<rparr>
       [] 1.005 = Inr tl'
     \<and> map kf_id (keyframes tl') = [''new'']"
  using addGlobalKeyframe_replaces [of
       "\<lparr>duration = 5, loop = False, autoplay = False, speed = 1,
        keyframes = [\<lparr>kf_id = ''old'', kf_time = 1, kf_easing = Linear,
                      elementStates = Map.empty\<rparr>]\<rparr>" "[]" "''new''" "1.005"]
  by auto

text \<open>
  The claim as it is written fails around the time at which the keyframe is stored.
  With a keyframe at 0.9945, inserting at 1.0049 keeps the old keyframe, which is
  0.0104 from the argument, and stores the new one at 1.0: the timeline then holds two
  keyframes 0.0055 apart.
\<close>

theorem addGlobalKeyframe_near_stored_counterexample:
  "addGlobalKeyframe ''new''
       \<lparr>duration = 5, loop = False, autoplay = False, speed = 1,
        keyframes = [\<lparr>kf_id = ''old'', kf_time = 0.9945, kf_easing = Linear,
                      elementStates = Map.empty\<rparr>]\<rparr>
       [] 1.0049
     = Inr \<lparr>duration = 5, loop = False, autoplay = False, speed = 1,
        keyframes = [\<lparr>kf_id = ''old'', kf_time = 0.9945, kf_easing = Linear,
                      elementStates = Map.empty\<rparr>,
                     \<lparr>kf_id = ''new'', kf_time = 1, kf_easing = Linear,
                      elementStates = Map.empty\<rparr>]\<rparr>
   \<and> \<bar>0.9945 - (1::real)\<bar> \<le> 0.01"
  by (simp add: addGlobalKeyframe_def snapshotAllElements_def js_round_def)

section \<open>What a scene snapshot records\<close>

lemma overridesOf_cases:
  "overridesOf time kfs el
     = (case time of
          None \<Rightarrow> Inr Map.empty
        | Some t \<Rightarrow>
            (case kfs of
               None \<Rightarrow> Inr Map.empty
             | Some ks \<Rightarrow>
                 if ks = [] then Inr Map.empty
                 else interpolateElementFromGlobal ks (el_id el) el t))"
  by (simp add: overridesOf_def split: option.splits)

lemma truthy_iff: "truthy v \<longleftrightarrow> \<not> (v = Num 0 \<or> v = Str [])"
  by (cases v) (simp_all add: truthy_def)

lemma whenTruthy_keep:
  "whenTruthy u
     = (case u of Some v \<Rightarrow> if v = Num 0 \<or> v = Str [] then None else Some v | None \<Rightarrow> None)"
  by (simp add: whenTruthy_def truthy_iff split: option.splits)

text \<open>
  C10. \<open>snapshotAllElements\<close> succeeds whenever the snapshots of the keyframes have the
  expected types. Whenever it succeeds on a tree whose identifiers are distinct, every
  element of the tree has an entry under its identifier. The effective value of a
  property is the value that \<open>interpolateElementFromGlobal\<close> yields for the element at the
  given time, when a time and a non-empty list of keyframes are given and the
  interpolation yields that property, and the element's own value otherwise. The entry
  holds the effective \<open>x\<close>, \<open>y\<close>, \<open>width\<close>, \<open>height\<close>, \<open>rotation\<close> and \<open>opacity\<close>; it holds
  \<open>scaleX\<close> and \<open>scaleY\<close>, which are 1 when there is no effective value; it holds \<open>fill\<close>,
  \<open>strokeColor\<close>, \<open>color\<close>, \<open>blur\<close>, \<open>brightness\<close> and \<open>fontSize\<close> exactly when the
  effective value is neither 0 nor the empty string; it holds \<open>borderRadius\<close> when there
  is an effective value; it holds no other property. So a blur, brightness or font size
  of 0, or an empty colour string, is left out.
\<close>

theorem snapshotAllElements_records:
  "((\<forall>k \<in> (case kfs of None \<Rightarrow> {} | Some ks \<Rightarrow> set ks).
       \<forall>x \<in> set (elementsOfList elements). wellTyped (getState (el_id x) k)) \<longrightarrow>
     (\<exists>states. snapshotAllElements elements time kfs = Inr states))
   \<and> (\<forall>states. snapshotAllElements elements time kfs = Inr states
          \<and> distinct (map el_id (elementsOfList elements))
          \<and> el \<in> set (elementsOfList elements) \<longrightarrow>
        (\<exists>ov st.
           (case time of
              None \<Rightarrow> Inr Map.empty
            | Some t \<Rightarrow>
                (case kfs of
                   None \<Rightarrow> Inr Map.empty
                 | Some ks \<Rightarrow>
                     if ks = [] then Inr Map.empty
                     else interpolateElementFromGlobal ks (el_id el) el t)) = Inr ov
           \<and> states (el_id el) = Some st
           \<and> (let over = (\<lambda>p base. case ov p of Some v \<Rightarrow> Some v | None \<Rightarrow> base);
                   keep = (\<lambda>u. case u of
                                 Some v \<Rightarrow> if v = Num 0 \<or> v = Str [] then None else Some v
                               | None \<Rightarrow> None)
               in st K_x = Some (case ov K_x of Some v \<Rightarrow> v | None \<Rightarrow> Num (el_x el))
                \<and> st K_y = Some (case ov K_y of Some v \<Rightarrow> v | None \<Rightarrow> Num (el_y el))
                \<and> st K_width = Some (case ov K_width of Some v \<Rightarrow> v | None \<Rightarrow> Num (el_width el))
                \<and> st K_height = Some (case ov K_height of Some v \<Rightarrow> v | None \<Rightarrow> Num (el_height el))
                \<and> st K_rotation
                    = Some (case ov K_rotation of Some v \<Rightarrow> v | None \<Rightarrow> Num (el_rotation el))
                \<and> st K_opacity
                    = Some (case ov K_opacity of Some v \<Rightarrow> v | None \<Rightarrow> Num (el_opacity el))
                \<and> st K_scaleX
                    = Some (case over K_scaleX (map_option Num (el_scaleX el)) of
                              Some v \<Rightarrow> v | None \<Rightarrow> Num 1)
                \<and> st K_scaleY
                    = Some (case over K_scaleY (map_option Num (el_scaleY el)) of
                              Some v \<Rightarrow> v | None \<Rightarrow> Num 1)
                \<and> st K_fill = keep (over K_fill (map_option Str (el_fill el)))
                \<and> st K_strokeColor = keep (over K_strokeColor (map_option Str (el_strokeColor el)))
                \<and> st K_color = keep (over K_color (map_option Str (el_color el)))
                \<and> st K_blur = keep (over K_blur (map_option Num (el_blur el)))
                \<and> st K_brightness = keep (over K_brightness (map_option Num (el_brightness el)))
                \<and> st K_fontSize = keep (over K_fontSize (map_option Num (el_fontSize el)))
                \<and> st K_borderRadius = over K_borderRadius (map_option Num (el_borderRadius el))
                \<and> (\<forall>p \<in> {K_strokeWidth, K_letterSpacing, K_lineHeight,
                           K_contrast, K_hueRotate, K_saturate}. st p = None)
                \<and> (over K_blur (map_option Num (el_blur el)) = Some (Num 0)
                      \<longrightarrow> st K_blur = None)
                \<and> (over K_brightness (map_option Num (el_brightness el)) = Some (Num 0)
                      \<longrightarrow> st K_brightness = None)
                \<and> (over K_fontSize (map_option Num (el_fontSize el)) = Some (Num 0)
                      \<longrightarrow> st K_fontSize = None)
                \<and> (over K_color (map_option Str (el_color el)) = Some (Str [])
                      \<longrightarrow> st K_color = None))))"
proof (intro conjI impI allI)
  assume "\<forall>k \<in> (case kfs of None \<Rightarrow> {} | Some ks \<Rightarrow> set ks).
       \<forall>x \<in> set (elementsOfList elements). wellTyped (getState (el_id x) k)"
  then show "\<exists>states. snapshotAllElements elements time kfs = Inr states"
    by (rule snapshot_total)
next
  fix states
  assume a: "snapshotAllElements elements time kfs = Inr states
          \<and> distinct (map el_id (elementsOfList elements))
          \<and> el \<in> set (elementsOfList elements)"
  then have "flatten time kfs elements Map.empty = Inr states"
    by (simp add: snapshotAllElements_def)
  then obtain ov where ov: "overridesOf time kfs el = Inr ov"
    and st: "states (el_id el) = Some (elementState (stateElProp el ov))"
    using flatten_entries_aux(2) [of time kfs elements Map.empty states] a by blast
  show "(\<exists>ov st.
           (case time of
              None \<Rightarrow> Inr Map.empty
            | Some t \<Rightarrow>
                (case kfs of
                   None \<Rightarrow> Inr Map.empty
                 | Some ks \<Rightarrow>
                     if ks = [] then Inr Map.empty
                     else interpolateElementFromGlobal ks (el_id el) el t)) = Inr ov
           \<and> states (el_id el) = Some st
           \<and> (let over = (\<lambda>p base. case ov p of Some v \<Rightarrow> Some v | None \<Rightarrow> base);
                   keep = (\<lambda>u. case u of
                                 Some v \<Rightarrow> if v = Num 0 \<or> v = Str [] then None else Some v
                               | None \<Rightarrow> None)
               in st K_x = Some (case ov K_x of Some v \<Rightarrow> v | None \<Rightarrow> Num (el_x el))
                \<and> st K_y = Some (case ov K_y of Some v \<Rightarrow> v | None \<Rightarrow> Num (el_y el))
                \<and> st K_width = Some (case ov K_width of Some v \<Rightarrow> v | None \<Rightarrow> Num (el_width el))
                \<and> st K_height = Some (case ov K_height of Some v \<Rightarrow> v | None \<Rightarrow> Num (el_height el))
                \<and> st K_rotation
                    = Some (case ov K_rotation of Some v \<Rightarrow> v | None \<Rightarrow> Num (el_rotation el))
                \<and> st K_opacity
                    = Some (case ov K_opacity of Some v \<Rightarrow> v | None \<Rightarrow> Num (el_opacity el))
                \<and> st K_scaleX
                    = Some (case over K_scaleX (map_option Num (el_scaleX el)) of
                              Some v \<Rightarrow> v | None \<Rightarrow> Num 1)
                \<and> st K_scaleY
                    = Some (case over K_scaleY (map_option Num (el_scaleY el)) of
                              Some v \<Rightarrow> v | None \<Rightarrow> Num 1)
                \<and> st K_fill = keep (over K_fill (map_option Str (el_fill el)))
                \<and> st K_strokeColor = keep (over K_strokeColor (map_option Str (el_strokeColor el)))
                \<and> st K_color = keep (over K_color (map_option Str (el_color el)))
                \<and> st K_blur = keep (over K_blur (map_option Num (el_blur el)))
                \<and> st K_brightness = keep (over K_brightness (map_option Num (el_brightness el)))
                \<and> st K_fontSize = keep (over K_fontSize (map_option Num (el_fontSize el)))
                \<and> st K_borderRadius = over K_borderRadius (map_option Num (el_borderRadius el))
                \<and> (\<forall>p \<in> {K_strokeWidth, K_letterSpacing, K_lineHeight,
                           K_contrast, K_hueRotate, K_saturate}. st p = None)
                \<and> (over K_blur (map_option Num (el_blur el)) = Some (Num 0)
                      \<longrightarrow> st K_blur = None)
                \<and> (over K_brightness (map_option Num (el_brightness el)) = Some (Num 0)
                      \<longrightarrow> st K_brightness = None)
                \<and> (over K_fontSize (map_option Num (el_fontSize el)) = Some (Num 0)
                      \<longrightarrow> st K_fontSize = None)
                \<and> (over K_color (map_option Str (el_color el)) = Some (Str [])
                      \<longrightarrow> st K_color = None)))"
  proof (rule exI [of _ ov], rule exI [of _ "elementState (stateElProp el ov)"],
      unfold Let_def, intro conjI ballI impI)
    show "(case time of
              None \<Rightarrow> Inr Map.empty
            | Some t \<Rightarrow>
                (case kfs of
                   None \<Rightarrow> Inr Map.empty
                 | Some ks \<Rightarrow>
                     if ks = [] then Inr Map.empty
                     else interpolateElementFromGlobal ks (el_id el) el t)) = Inr ov"
      using ov by (simp only: overridesOf_cases)
    show "states (el_id el) = Some (elementState (stateElProp el ov))"
      by (rule st)
  qed (auto simp add: stateElProp_def whenTruthy_keep nullish_def split: option.splits)
qed

text \<open>
  A group at \<open>x = 20\<close> with a blur of 5, between a keyframe at 0 that holds \<open>x = 0\<close> and
  a keyframe at 2 that holds \<open>x = 100\<close>, both with a blur of 0: the snapshot taken at 1
  records the interpolated \<open>x = 50\<close> and no blur, and for the rest the group's own values.
\<close>

theorem snapshotAllElements_records_witness:
  "\<exists>states st.
     snapshotAllElements
       [OverlayElement
          ((props (newGroup ''g''))\<lparr>el_fill := Some ''#fff'', el_color := Some [], el_blur := Some 5\<rparr>)
          (Some [newGroup ''h''])]
       (Some 1)
       (Some [\<lparr>kf_id = ''a'', kf_time = 0, kf_easing = Linear,
               elementStates = [''g'' \<mapsto> [K_x \<mapsto> Num 0, K_blur \<mapsto> Num 0]]\<rparr>,
              \<lparr>kf_id = ''b'', kf_time = 2, kf_easing = Linear,
               elementStates = [''g'' \<mapsto> [K_x \<mapsto> Num 100, K_blur \<mapsto> Num 0]]\<rparr>]) = Inr states
     \<and> states ''g'' = Some st
     \<and> st K_x = Some (Num 50) \<and> st K_y = Some (Num 20) \<and> st K_opacity = Some (Num 1)
     \<and> st K_scaleX = Some (Num 1) \<and> st K_scaleY = Some (Num 1)
     \<and> st K_fill = Some (Str ''#fff'')
     \<and> st K_color = None \<and> st K_blur = None \<and> st K_fontSize = None
     \<and> st K_borderRadius = None \<and> st K_contrast = None"
proof -
  define el where
    "el = (props (newGroup ''g''))\<lparr>el_fill := Some ''#fff'', el_color := Some [], el_blur := Some 5\<rparr>"
  define ks where
    "ks = [\<lparr>kf_id = ''a'', kf_time = 0, kf_easing = Linear,
               elementStates = [''g'' \<mapsto> [K_x \<mapsto> Num 0, K_blur \<mapsto> Num 0]]\<rparr>,
              \<lparr>kf_id = ''b'', kf_time = 2, kf_easing = Linear,
               elementStates = [''g'' \<mapsto> [K_x \<mapsto> Num 100, K_blur \<mapsto> Num 0]]\<rparr>]"
  define es where "es = [OverlayElement el (Some [newGroup ''h''])]"
  note inst = snapshotAllElements_records [of "Some ks" es "Some 1" el]
  have typed: "\<forall>k \<in> (case Some ks of None \<Rightarrow> {} | Some ks \<Rightarrow> set ks).
       \<forall>x \<in> set (elementsOfList es). wellTyped (getState (el_id x) k)"
    by (simp add: ks_def es_def el_def wellTyped_def getState_def newGroup_def
          NUMERIC_KEYFRAME_PROPS_def COLOR_KEYFRAME_PROPS_def)
  obtain states where s: "snapshotAllElements es (Some 1) (Some ks) = Inr states"
    using inst typed by blast
  have d: "distinct (map el_id (elementsOfList es))" and m: "el \<in> set (elementsOfList es)"
    by (simp_all add: es_def el_def newGroup_def)
  have fields: "el_id el = ''g''" "el_x el = 20" "el_y el = 20" "el_opacity el = 1"
    "el_scaleX el = None" "el_scaleY el = None" "el_fill el = Some ''#fff''"
    "el_color el = Some []" "el_blur el = Some 5" "el_fontSize el = None"
    "el_borderRadius el = None"
    by (simp_all add: el_def newGroup_def)
  have ne: "ks \<noteq> []"
    by (simp add: ks_def)
  have ip: "interpolateElementFromGlobal ks ''g'' el 1 = Inr [K_x \<mapsto> Num 50, K_blur \<mapsto> Num 0]"
    unfolding ks_def
    by (simp add: interpolateElementFromGlobal_def bracket_def getState_def interpolateProps_def
        interpolateProp_def NUMERIC_KEYFRAME_PROPS_def COLOR_KEYFRAME_PROPS_def nullish_def
        Let_def fun_eq_iff)
  note body = inst [THEN conjunct2, THEN spec, THEN mp, OF conjI [OF s conjI [OF d m]]]
  have "\<exists>st. states ''g'' = Some st
     \<and> st K_x = Some (Num 50) \<and> st K_y = Some (Num 20) \<and> st K_opacity = Some (Num 1)
     \<and> st K_scaleX = Some (Num 1) \<and> st K_scaleY = Some (Num 1)
     \<and> st K_fill = Some (Str ''#fff'')
     \<and> st K_color = None \<and> st K_blur = None \<and> st K_fontSize = None
     \<and> st K_borderRadius = None \<and> st K_contrast = None"
    using body unfolding Let_def by (auto simp: ip ne fields)
  then show ?thesis
    using s unfolding el_def ks_def es_def by blast
qed

section \<open>A property missing from one of the two snapshots\<close>

lemma numeric_or_color: "p \<in> set NUMERIC_KEYFRAME_PROPS \<or> p \<in> set COLOR_KEYFRAME_PROPS"
  by (cases p) (simp_all add: NUMERIC_KEYFRAME_PROPS_def COLOR_KEYFRAME_PROPS_def)

lemma color_not_numeric: "p \<in> set COLOR_KEYFRAME_PROPS \<Longrightarrow> p \<notin> set NUMERIC_KEYFRAME_PROPS"
  by (auto simp: NUMERIC_KEYFRAME_PROPS_def COLOR_KEYFRAME_PROPS_def)

lemma findPair_brackets:
  assumes "s \<noteq> []" and "kf_time (hd s) < t" and "t \<le> kf_time (last s)"
  shows "\<exists>a b. findPair s t = Some (a, b) \<and> kf_time a \<le> t \<and> t \<le> kf_time b"
  using assms
proof (induction s t rule: findPair.induct)
  case (1 a b rest time)
  show ?case
  proof (cases "time \<le> kf_time b")
    case True
    then show ?thesis using "1.prems" by simp
  next
    case False
    then have "\<exists>x y. findPair (b # rest) time = Some (x, y) \<and> kf_time x \<le> time \<and> time \<le> kf_time y"
      using "1.IH" "1.prems" by simp
    then show ?thesis using False by simp
  qed
qed simp_all

lemma interpolateProp_absent:
  assumes "ps p = None" and "ns p = None"
  shows "interpolateProp el ps ns t p = None"
  using assms by (simp add: interpolateProp_def)

lemma interpolateProp_numeric:
  assumes "p \<in> set NUMERIC_KEYFRAME_PROPS"
  shows "ps p = Some (Num a) \<Longrightarrow> ns p = None \<Longrightarrow> elProp el p = Some (Num b) \<Longrightarrow>
           interpolateProp el ps ns t p = Some (Inr (Num (a + (b - a) * t)))"
    and "ps p = Some (Num a) \<Longrightarrow> ns p = None \<Longrightarrow> elProp el p = None \<Longrightarrow>
           interpolateProp el ps ns t p = Some (Inr (Num (a + (0 - a) * t)))"
    and "ps p = None \<Longrightarrow> ns p = Some (Num b) \<Longrightarrow> elProp el p = Some (Num a) \<Longrightarrow>
           interpolateProp el ps ns t p = Some (Inr (Num (a + (b - a) * t)))"
    and "ps p = None \<Longrightarrow> ns p = Some (Num b) \<Longrightarrow> elProp el p = None \<Longrightarrow>
           interpolateProp el ps ns t p = Some (Inr (Num (0 + (b - 0) * t)))"
  using assms by (simp_all add: interpolateProp_def nullish_def)

lemma interpolateProp_color:
  assumes "p \<in> set COLOR_KEYFRAME_PROPS"
  shows "ps p = Some (Str c) \<Longrightarrow> ns p = None \<Longrightarrow> elProp el p = Some (Str d) \<Longrightarrow>
           interpolateProp el ps ns t p = Some (Inr (Str (lerpColor c d t)))"
    and "ps p = Some (Str c) \<Longrightarrow> ns p = None \<Longrightarrow> elProp el p = None \<Longrightarrow>
           interpolateProp el ps ns t p = Some (Inr (Str (lerpColor c ''#000000'' t)))"
    and "ps p = None \<Longrightarrow> ns p = Some (Str d) \<Longrightarrow> elProp el p = Some (Str c) \<Longrightarrow>
           interpolateProp el ps ns t p = Some (Inr (Str (lerpColor c d t)))"
    and "ps p = None \<Longrightarrow> ns p = Some (Str d) \<Longrightarrow> elProp el p = None \<Longrightarrow>
           interpolateProp el ps ns t p = Some (Inr (Str (lerpColor ''#000000'' d t)))"
  using assms color_not_numeric [OF assms] by (simp_all add: interpolateProp_def nullish_def)

lemma wellTyped_Num_numeric:
  assumes "wellTyped st" and "st p = Some (Num a)"
  shows "p \<in> set NUMERIC_KEYFRAME_PROPS"
  using assms numeric_or_color [of p] wellTyped_color by blast

lemma wellTyped_Str_color:
  assumes "wellTyped st" and "st p = Some (Str c)"
  shows "p \<in> set COLOR_KEYFRAME_PROPS"
  using assms numeric_or_color [of p] wellTyped_numeric by blast

text \<open>
  C3, as the code has it. Take a query time strictly between the first and the last
  keyframe time, and snapshots of the expected types. The loop finds a neighbouring pair
  around the query time and the call returns an override map. A property in neither
  snapshot of the pair has no entry. A property in exactly one of them is interpolated
  (linearly for a number, by \<open>lerpColor\<close> for a colour) against the element's own value
  of the property on the missing side when the element has one, and against 0 for a
  number or \<open>#000000\<close> for a colour when the element has none.
\<close>

theorem interpolate_missing_side:
  assumes "kfs \<noteq> []"
    and "kf_time (hd (sort_key kf_time kfs)) < time"
    and "time < kf_time (last (sort_key kf_time kfs))"
    and "\<forall>k \<in> set kfs. wellTyped (getState elId k)"
  shows "\<exists>prev next r.
       findPair (sort_key kf_time kfs) time = Some (prev, next)
     \<and> kf_time prev \<le> time \<and> time \<le> kf_time next
     \<and> interpolateElementFromGlobal kfs elId el time = Inr r
     \<and> (let prevState = getState elId prev;
             nextState = getState elId next;
             span = kf_time next - kf_time prev;
             rawT = (if span > 0 then (time - kf_time prev) / span else 1);
             t = easingFn rawT (kf_easing prev)
         in \<forall>p.
              (prevState p = None \<and> nextState p = None \<longrightarrow> r p = None)
            \<and> (\<forall>a. prevState p = Some (Num a) \<and> nextState p = None \<longrightarrow>
                  (\<forall>b. elProp el p = Some (Num b) \<longrightarrow> r p = Some (Num (a + (b - a) * t)))
                  \<and> (elProp el p = None \<longrightarrow> r p = Some (Num (a + (0 - a) * t))))
            \<and> (\<forall>b. prevState p = None \<and> nextState p = Some (Num b) \<longrightarrow>
                  (\<forall>a. elProp el p = Some (Num a) \<longrightarrow> r p = Some (Num (a + (b - a) * t)))
                  \<and> (elProp el p = None \<longrightarrow> r p = Some (Num (0 + (b - 0) * t))))
            \<and> (\<forall>c. prevState p = Some (Str c) \<and> nextState p = None \<longrightarrow>
                  (\<forall>d. elProp el p = Some (Str d) \<longrightarrow> r p = Some (Str (lerpColor c d t)))
                  \<and> (elProp el p = None \<longrightarrow> r p = Some (Str (lerpColor c ''#000000'' t))))
            \<and> (\<forall>d. prevState p = None \<and> nextState p = Some (Str d) \<longrightarrow>
                  (\<forall>c. elProp el p = Some (Str c) \<longrightarrow> r p = Some (Str (lerpColor c d t)))
                  \<and> (elProp el p = None \<longrightarrow> r p = Some (Str (lerpColor ''#000000'' d t)))))"
proof -
  let ?s = "sort_key kf_time kfs"
  obtain prev "next" where fp: "findPair ?s time = Some (prev, next)"
    and b1: "kf_time prev \<le> time" and b2: "time \<le> kf_time next"
    using findPair_brackets [of ?s time] sort_key_time_nonempty [OF assms(1)] assms(2,3) by auto
  have mem: "prev \<in> set kfs" "next \<in> set kfs"
    using findPair_mem [OF fp] by simp_all
  let ?ps = "getState elId prev" and ?ns = "getState elId next"
  have wt: "wellTyped ?ps" "wellTyped ?ns" using assms(4) mem by auto
  define t where "t = easingFn (if kf_time next - kf_time prev > 0
      then (time - kf_time prev) / (kf_time next - kf_time prev) else 1) (kf_easing prev)"
  let ?r = "\<lambda>p. case interpolateProp el ?ps ?ns t p of Some (Inr v) \<Rightarrow> Some v | _ \<Rightarrow> None"
  have res: "interpolateElementFromGlobal kfs elId el time = Inr ?r"
    using assms(1-3) fp interpolateProps_wellTyped [OF wt, of el t]
    by (simp add: interpolateElementFromGlobal_def bracket_def Let_def t_def)
  have body: "(?ps p = None \<and> ?ns p = None \<longrightarrow> ?r p = None)
            \<and> (\<forall>a. ?ps p = Some (Num a) \<and> ?ns p = None \<longrightarrow>
                  (\<forall>b. elProp el p = Some (Num b) \<longrightarrow> ?r p = Some (Num (a + (b - a) * t)))
                  \<and> (elProp el p = None \<longrightarrow> ?r p = Some (Num (a + (0 - a) * t))))
            \<and> (\<forall>b. ?ps p = None \<and> ?ns p = Some (Num b) \<longrightarrow>
                  (\<forall>a. elProp el p = Some (Num a) \<longrightarrow> ?r p = Some (Num (a + (b - a) * t)))
                  \<and> (elProp el p = None \<longrightarrow> ?r p = Some (Num (0 + (b - 0) * t))))
            \<and> (\<forall>c. ?ps p = Some (Str c) \<and> ?ns p = None \<longrightarrow>
                  (\<forall>d. elProp el p = Some (Str d) \<longrightarrow> ?r p = Some (Str (lerpColor c d t)))
                  \<and> (elProp el p = None \<longrightarrow> ?r p = Some (Str (lerpColor c ''#000000'' t))))
            \<and> (\<forall>d. ?ps p = None \<and> ?ns p = Some (Str d) \<longrightarrow>
                  (\<forall>c. elProp el p = Some (Str c) \<longrightarrow> ?r p = Some (Str (lerpColor c d t)))
                  \<and> (elProp el p = None \<longrightarrow> ?r p = Some (Str (lerpColor ''#000000'' d t))))" for p
  proof (intro conjI impI allI)
    assume "?ps p = None \<and> ?ns p = None"
    then show "?r p = None" by (simp add: interpolateProp_absent)
  next
    fix a b assume h: "?ps p = Some (Num a) \<and> ?ns p = None" and e: "elProp el p = Some (Num b)"
    have "p \<in> set NUMERIC_KEYFRAME_PROPS" using wellTyped_Num_numeric [OF wt(1)] h by blast
    then show "?r p = Some (Num (a + (b - a) * t))"
      using h e by (simp add: interpolateProp_numeric(1))
  next
    fix a assume h: "?ps p = Some (Num a) \<and> ?ns p = None" and e: "elProp el p = None"
    have "p \<in> set NUMERIC_KEYFRAME_PROPS" using wellTyped_Num_numeric [OF wt(1)] h by blast
    then show "?r p = Some (Num (a + (0 - a) * t))"
      using h e by (simp add: interpolateProp_numeric(2))
  next
    fix b a assume h: "?ps p = None \<and> ?ns p = Some (Num b)" and e: "elProp el p = Some (Num a)"
    have "p \<in> set NUMERIC_KEYFRAME_PROPS" using wellTyped_Num_numeric [OF wt(2)] h by blast
    then show "?r p = Some (Num (a + (b - a) * t))"
      using h e by (simp add: interpolateProp_numeric(3))
  next
    fix b assume h: "?ps p = None \<and> ?ns p = Some (Num b)" and e: "elProp el p = None"
    have "p \<in> set NUMERIC_KEYFRAME_PROPS" using wellTyped_Num_numeric [OF wt(2)] h by blast
    then show "?r p = Some (Num (0 + (b - 0) * t))"
      using h e by (simp add: interpolateProp_numeric(4))
  next
    fix c d assume h: "?ps p = Some (Str c) \<and> ?ns p = None" and e: "elProp el p = Some (Str d)"
    have "p \<in> set COLOR_KEYFRAME_PROPS" using wellTyped_Str_color [OF wt(1)] h by blast
    then show "?r p = Some (Str (lerpColor c d t))"
      using h e by (simp add: interpolateProp_color(1))
  next
    fix c assume h: "?ps p = Some (Str c) \<and> ?ns p = None" and e: "elProp el p = None"
    have "p \<in> set COLOR_KEYFRAME_PROPS" using wellTyped_Str_color [OF wt(1)] h by blast
    then show "?r p = Some (Str (lerpColor c ''#000000'' t))"
      using h e by (simp add: interpolateProp_color(2))
  next
    fix d c assume h: "?ps p = None \<and> ?ns p = Some (Str d)" and e: "elProp el p = Some (Str c)"
    have "p \<in> set COLOR_KEYFRAME_PROPS" using wellTyped_Str_color [OF wt(2)] h by blast
    then show "?r p = Some (Str (lerpColor c d t))"
      using h e by (simp add: interpolateProp_color(3))
  next
    fix d assume h: "?ps p = None \<and> ?ns p = Some (Str d)" and e: "elProp el p = None"
    have "p \<in> set COLOR_KEYFRAME_PROPS" using wellTyped_Str_color [OF wt(2)] h by blast
    then show "?r p = Some (Str (lerpColor ''#000000'' d t))"
      using h e by (simp add: interpolateProp_color(4))
  qed
  have final: "findPair ?s time = Some (prev, next)
     \<and> kf_time prev \<le> time \<and> time \<le> kf_time next
     \<and> interpolateElementFromGlobal kfs elId el time = Inr ?r
     \<and> (\<forall>p.
              (?ps p = None \<and> ?ns p = None \<longrightarrow> ?r p = None)
            \<and> (\<forall>a. ?ps p = Some (Num a) \<and> ?ns p = None \<longrightarrow>
                  (\<forall>b. elProp el p = Some (Num b) \<longrightarrow> ?r p = Some (Num (a + (b - a) * t)))
                  \<and> (elProp el p = None \<longrightarrow> ?r p = Some (Num (a + (0 - a) * t))))
            \<and> (\<forall>b. ?ps p = None \<and> ?ns p = Some (Num b) \<longrightarrow>
                  (\<forall>a. elProp el p = Some (Num a) \<longrightarrow> ?r p = Some (Num (a + (b - a) * t)))
                  \<and> (elProp el p = None \<longrightarrow> ?r p = Some (Num (0 + (b - 0) * t))))
            \<and> (\<forall>c. ?ps p = Some (Str c) \<and> ?ns p = None \<longrightarrow>
                  (\<forall>d. elProp el p = Some (Str d) \<longrightarrow> ?r p = Some (Str (lerpColor c d t)))
                  \<and> (elProp el p = None \<longrightarrow> ?r p = Some (Str (lerpColor c ''#000000'' t))))
            \<and> (\<forall>d. ?ps p = None \<and> ?ns p = Some (Str d) \<longrightarrow>
                  (\<forall>c. elProp el p = Some (Str c) \<longrightarrow> ?r p = Some (Str (lerpColor c d t)))
                  \<and> (elProp el p = None \<longrightarrow> ?r p = Some (Str (lerpColor ''#000000'' d t)))))"
    using fp b1 b2 res body by (intro conjI allI) blast+
  show ?thesis
    unfolding Let_def
    apply (rule exI [of _ prev])
    apply (rule exI [of _ "next"])
    apply (rule exI [of _ ?r])
    apply (unfold t_def)
    apply (rule final [unfolded t_def])
    done
qed


theorem interpolate_missing_side_witness:
  "\<exists>r. interpolateElementFromGlobal
        [\<lparr>kf_id = ''a'', kf_time = 0, kf_easing = Linear,
          elementStates = [''g'' \<mapsto> [K_fill \<mapsto> Str ''#ff0000'']]\<rparr>,
         \<lparr>kf_id = ''b'', kf_time = 2, kf_easing = Linear,
          elementStates = [''g'' \<mapsto> [K_x \<mapsto> Num 5, K_blur \<mapsto> Num 10]]\<rparr>]
        ''g'' (props (newGroup ''g'')) 1 = Inr r
      \<and> r K_x = Some (Num (25 / 2))
      \<and> r K_blur = Some (Num 5)
      \<and> r K_fill = Some (Str (lerpColor ''#ff0000'' ''#000000'' (1 / 2)))
      \<and> r K_y = None"
proof -
  let ?a = "\<lparr>kf_id = ''a'', kf_time = 0, kf_easing = Linear,
          elementStates = [''g'' \<mapsto> [K_fill \<mapsto> Str ''#ff0000'']]\<rparr>"
  let ?b = "\<lparr>kf_id = ''b'', kf_time = 2, kf_easing = Linear,
          elementStates = [''g'' \<mapsto> [K_x \<mapsto> Num 5, K_blur \<mapsto> Num 10]]\<rparr>"
  let ?el = "props (newGroup ''g'')"
  have typed: "\<forall>k \<in> set [?a, ?b]. wellTyped (getState ''g'' k)"
    by (simp add: wellTyped_def getState_def NUMERIC_KEYFRAME_PROPS_def COLOR_KEYFRAME_PROPS_def)
  have inside: "kf_time (hd (sort_key kf_time [?a, ?b])) < 1"
    "1 < kf_time (last (sort_key kf_time [?a, ?b]))"
    by simp_all
  obtain prev "next" r where fp: "findPair (sort_key kf_time [?a, ?b]) 1 = Some (prev, next)"
    and res: "interpolateElementFromGlobal [?a, ?b] ''g'' ?el 1 = Inr r"
    and body: "\<And>p. (let prevState = getState ''g'' prev;
             nextState = getState ''g'' next;
             span = kf_time next - kf_time prev;
             rawT = (if span > 0 then (1 - kf_time prev) / span else 1);
             t = easingFn rawT (kf_easing prev)
         in (prevState p = None \<and> nextState p = None \<longrightarrow> r p = None)
            \<and> (\<forall>a. prevState p = Some (Num a) \<and> nextState p = None \<longrightarrow>
                  (\<forall>b. elProp ?el p = Some (Num b) \<longrightarrow> r p = Some (Num (a + (b - a) * t)))
                  \<and> (elProp ?el p = None \<longrightarrow> r p = Some (Num (a + (0 - a) * t))))
            \<and> (\<forall>b. prevState p = None \<and> nextState p = Some (Num b) \<longrightarrow>
                  (\<forall>a. elProp ?el p = Some (Num a) \<longrightarrow> r p = Some (Num (a + (b - a) * t)))
                  \<and> (elProp ?el p = None \<longrightarrow> r p = Some (Num (0 + (b - 0) * t))))
            \<and> (\<forall>c. prevState p = Some (Str c) \<and> nextState p = None \<longrightarrow>
                  (\<forall>d. elProp ?el p = Some (Str d) \<longrightarrow> r p = Some (Str (lerpColor c d t)))
                  \<and> (elProp ?el p = None \<longrightarrow> r p = Some (Str (lerpColor c ''#000000'' t))))
            \<and> (\<forall>d. prevState p = None \<and> nextState p = Some (Str d) \<longrightarrow>
                  (\<forall>c. elProp ?el p = Some (Str c) \<longrightarrow> r p = Some (Str (lerpColor c d t)))
                  \<and> (elProp ?el p = None \<longrightarrow> r p = Some (Str (lerpColor ''#000000'' d t)))))"
    using interpolate_missing_side [of "[?a, ?b]" 1 "''g''" ?el, OF _ inside typed]
    unfolding Let_def by blast
  have pn: "prev = ?a" "next = ?b" using fp by simp_all
  have "r K_x = Some (Num (25 / 2))"
    using body [of K_x] unfolding pn by (simp add: getState_def newGroup_def)
  moreover have "r K_blur = Some (Num 5)"
    using body [of K_blur] unfolding pn by (simp add: getState_def newGroup_def)
  moreover have "r K_fill = Some (Str (lerpColor ''#ff0000'' ''#000000'' (1 / 2)))"
    using body [of K_fill] unfolding pn by (simp add: getState_def newGroup_def)
  moreover have "r K_y = None"
    using body [of K_y] unfolding pn by (simp add: getState_def newGroup_def)
  ultimately show ?thesis using res by blast
qed

text \<open>
  The claim as it is written fails for a property that the element does not set: the
  default group has no blur, the keyframe at 2 holds a blur of 10 and the keyframe at 0
  none. At the time 1 the blur is 5, half way from zero.
\<close>

theorem interpolate_missing_side_counterexample:
  "elProp (props (newGroup ''g'')) K_blur = None
   \<and> interpolateElementFromGlobal
        [\<lparr>kf_id = ''a'', kf_time = 0, kf_easing = Linear,
          elementStates = [''g'' \<mapsto> Map.empty]\<rparr>,
         \<lparr>kf_id = ''b'', kf_time = 2, kf_easing = Linear,
          elementStates = [''g'' \<mapsto> [K_blur \<mapsto> Num 10]]\<rparr>]
        ''g'' (props (newGroup ''g'')) 1 = Inr [K_blur \<mapsto> Num 5]"
  by (simp add: interpolateElementFromGlobal_def bracket_def getState_def interpolateProps_def
        interpolateProp_def NUMERIC_KEYFRAME_PROPS_def COLOR_KEYFRAME_PROPS_def nullish_def
        newGroup_def Let_def fun_eq_iff)

end
